theory Spec2Isabelle
  imports Main "HOL-Library.AList"
begin

section \<open>The client resilience layer\<close>

text \<open>
  A shallow embedding of the four components of the client resilience layer: the cache
  manager, the offline mutation queue, the sync coordinator and the realtime transport
  client. Each class is a record of its fields and each method a function from the
  state before to the state after (and a result, where the method returns one). A
  thrown error or a rejected promise is an \<open>Inl\<close> or an explicit outcome value.
  JavaScript numbers are integers here (timestamps in milliseconds, counters, limits).
  The code runs on one event loop; an asynchronous method is modelled as running to
  completion before the next one starts, except where a caller does not await it and the
  interleaving matters (the sync coordinator's \<open>setOnline\<close>), which is modelled at
  that place. The models come first, the properties after.
\<close>

section \<open>Cache Manager (packages/core/src/cache/manager.ts)\<close>

text \<open>
  The in-process tier is a JavaScript \<open>Map\<close>: keys are unique and iteration follows
  insertion order. It is modelled as an association list: \<open>AList.update\<close> overwrites
  in place or appends at the end (as \<open>Map.set\<close> does), \<open>AList.delete\<close> removes the
  key, \<open>map_of\<close> reads it. The persistent tier is the storage adapter, a partial map
  from storage keys to entries; \<open>storageFails\<close> says that every call of the adapter
  throws (the manager swallows those errors). \<open>Date.now()\<close> is the parameter \<open>now\<close>.
  Cached data is a value or \<open>null\<close> (\<open>None\<close>); \<open>get\<close> returns the data itself, so
  its \<open>null\<close> result stands for a missing entry and for cached \<open>null\<close> alike.
\<close>

record 'v CacheEntry =
  data :: "'v option"
  timestamp :: int
  ttl :: int
  key :: string

record CacheOptions =
  defaultTtl :: int
  maxEntries :: int
  cleanupInterval :: int

record 'v CacheManager =
  storage :: "string \<rightharpoonup> 'v CacheEntry"
  storageFails :: bool
  options :: CacheOptions
  memoryCache :: "(string \<times> 'v CacheEntry) list"

definition newCacheManager ::
  "(string \<rightharpoonup> 'v CacheEntry) \<Rightarrow> int option \<Rightarrow> int option \<Rightarrow> int option \<Rightarrow> 'v CacheManager" where
  "newCacheManager st dTtl mEntries cInterval =
     \<lparr> storage = st, storageFails = False,
       options = \<lparr> defaultTtl = (case dTtl of Some t \<Rightarrow> t | None \<Rightarrow> 300000),
                   maxEntries = (case mEntries of Some m \<Rightarrow> m | None \<Rightarrow> 1000),
                   cleanupInterval = (case cInterval of Some i \<Rightarrow> i | None \<Rightarrow> 60000) \<rparr>,
       memoryCache = [] \<rparr>"

definition isExpired :: "int \<Rightarrow> 'v CacheEntry \<Rightarrow> bool" where
  "isExpired now entry \<longleftrightarrow> now - timestamp entry > ttl entry"

definition storageKey :: "string \<Rightarrow> string" where
  "storageKey k = ''cache:'' @ k"

text \<open>
  \<open>get\<close>: the in-process tier first; then the persistent tier, whose unexpired entry is
  put into the in-process tier (no capacity check on this path) and returned.
\<close>

definition readStorage :: "int \<Rightarrow> string \<Rightarrow> 'v CacheManager \<Rightarrow> 'v option \<times> 'v CacheManager" where
  "readStorage now k c =
     (if storageFails c then (None, c)
      else (case storage c (storageKey k) of
              Some stored \<Rightarrow>
                if \<not> isExpired now stored
                then (data stored, c\<lparr>memoryCache := AList.update k stored (memoryCache c)\<rparr>)
                else (None, c)
            | None \<Rightarrow> (None, c)))"

definition cache_get :: "int \<Rightarrow> string \<Rightarrow> 'v CacheManager \<Rightarrow> 'v option \<times> 'v CacheManager" where
  "cache_get now k c =
     (case map_of (memoryCache c) k of
        Some memEntry \<Rightarrow>
          if \<not> isExpired now memEntry then (data memEntry, c) else readStorage now k c
      | None \<Rightarrow> readStorage now k c)"

text \<open>
  \<open>evictOldest\<close>: the loop keeps \<open>oldestKey\<close> (initially \<open>null\<close>) and \<open>oldestTime\<close>
  (initially \<open>Infinity\<close>, here \<open>None\<close>); a strictly smaller timestamp replaces both.
  The final test \<open>if (oldestKey)\<close> is JavaScript truthiness: \<open>null\<close> and the empty
  string both skip the deletion.
\<close>

fun oldestScan ::
  "(string \<times> 'v CacheEntry) list \<Rightarrow> string option \<times> int option \<Rightarrow> string option \<times> int option" where
  "oldestScan [] acc = acc"
| "oldestScan ((k, entry) # rest) (oldestKey, oldestTime) =
     (if (case oldestTime of None \<Rightarrow> True | Some t \<Rightarrow> timestamp entry < t)
      then oldestScan rest (Some k, Some (timestamp entry))
      else oldestScan rest (oldestKey, oldestTime))"

definition evictOldest :: "'v CacheManager \<Rightarrow> 'v CacheManager" where
  "evictOldest c =
     (case fst (oldestScan (memoryCache c) (None, None)) of
        Some oldestKey \<Rightarrow>
          if oldestKey \<noteq> [] then c\<lparr>memoryCache := AList.delete oldestKey (memoryCache c)\<rparr> else c
      | None \<Rightarrow> c)"

definition cache_set :: "int \<Rightarrow> string \<Rightarrow> 'v option \<Rightarrow> int option \<Rightarrow> 'v CacheManager \<Rightarrow> 'v CacheManager" where
  "cache_set now k d ttlArg c =
     (let entry = \<lparr> data = d, timestamp = now,
                     ttl = (case ttlArg of Some t \<Rightarrow> t | None \<Rightarrow> defaultTtl (options c)),
                     key = k \<rparr>;
          c1 = (if int (length (memoryCache c)) \<ge> maxEntries (options c) then evictOldest c else c);
          c2 = c1\<lparr>memoryCache := AList.update k entry (memoryCache c1)\<rparr>
      in if storageFails c2 then c2
         else c2\<lparr>storage := (storage c2)(storageKey k \<mapsto> entry)\<rparr>)"

definition cache_delete :: "string \<Rightarrow> 'v CacheManager \<Rightarrow> 'v CacheManager" where
  "cache_delete k c =
     (let c1 = c\<lparr>memoryCache := AList.delete k (memoryCache c)\<rparr>
      in if storageFails c1 then c1
         else c1\<lparr>storage := (storage c1)(storageKey k := None)\<rparr>)"

definition cache_clear :: "'v CacheManager \<Rightarrow> 'v CacheManager" where
  "cache_clear c =
     (let c1 = c\<lparr>memoryCache := []\<rparr>
      in if storageFails c1 then c1
         else c1\<lparr>storage := (\<lambda>sk. if take 6 sk = ''cache:'' then None else storage c1 sk)\<rparr>)"

definition cache_has :: "int \<Rightarrow> string \<Rightarrow> 'v CacheManager \<Rightarrow> bool \<times> 'v CacheManager" where
  "cache_has now k c = (case cache_get now k c of (v, c') \<Rightarrow> (v \<noteq> None, c'))"

text \<open>The periodic sweep of \<open>startCleanup\<close>: expired entries leave the in-process tier.\<close>

definition cleanup :: "int \<Rightarrow> 'v CacheManager \<Rightarrow> 'v CacheManager" where
  "cleanup now c = c\<lparr>memoryCache := filter (\<lambda>(k, entry). \<not> isExpired now entry) (memoryCache c)\<rparr>"

definition cache_dispose :: "'v CacheManager \<Rightarrow> 'v CacheManager" where
  "cache_dispose c = c\<lparr>memoryCache := []\<rparr>"

subsection \<open>A concrete cache\<close>

text \<open>A cache with \<open>maxEntries = 2\<close>, holding \<open>a\<close> (written at 1) and \<open>b\<close> (written at 2).\<close>

definition fullCache :: "nat CacheManager" where
  "fullCache = cache_set 2 ''b'' (Some 20) None (cache_set 1 ''a'' (Some 10) None
     (newCacheManager Map.empty None (Some 2) None))"

section \<open>Offline Mutation Queue (offline-queue.ts, in src/unnamed/part_023)\<close>

text \<open>
  A queued action is a JavaScript object that the queue array and the snapshot
  \<open>pendingActions\<close> of a pass both refer to, and that the pass mutates in place. The
  model keeps the objects in a store (\<open>objects\<close>, from references to actions); the
  queue is the list of references, in insertion order. A handler is a function from the
  action it is given to its outcome: \<open>None\<close> when its promise resolves, \<open>Some e\<close>
  when it rejects with \<open>e\<close>. \<open>invoked\<close> logs the handler invocations (the reference
  of the action passed) in the order they are made. Writes to the storage adapter are
  left out: \<open>saveToStorage\<close> swallows their errors and no operation below reads them
  back. An asynchronous operation is modelled as running to completion.
\<close>

datatype ActionStatus = Pending | Processing | Failed | Completed

datatype rejection = ErrorObject string | OtherValue

fun errorMessage :: "rejection \<Rightarrow> string" where
  "errorMessage (ErrorObject m) = m"
| "errorMessage OtherValue = ''Unknown error''"

record 'p QueuedAction =
  action_id :: string
  atype :: string
  payload :: 'p
  enqueuedAt :: int
  retryCount :: int
  maxRetries :: int
  status :: ActionStatus
  error :: "string option"

record OfflineQueueOptions =
  opt_maxQueueSize :: int
  opt_maxRetries :: int
  opt_retryDelay :: int
  opt_storageKey :: string

type_synonym 'p ActionHandler = "'p QueuedAction \<Rightarrow> rejection option"

record 'p OfflineQueue =
  queueOptions :: OfflineQueueOptions
  objects :: "nat \<Rightarrow> 'p QueuedAction"
  nextRef :: nat
  queue :: "nat list"
  handlers :: "string \<rightharpoonup> 'p ActionHandler"
  processing :: bool
  online :: bool
  syncTimer :: bool
  invoked :: "nat list"

definition newOfflineQueue ::
  "int option \<Rightarrow> int option \<Rightarrow> int option \<Rightarrow> string option \<Rightarrow> 'p QueuedAction \<Rightarrow> 'p OfflineQueue" where
  "newOfflineQueue mSize mRetries rDelay sKey blank =
     \<lparr> queueOptions =
         \<lparr> opt_maxQueueSize = (case mSize of Some n \<Rightarrow> n | None \<Rightarrow> 100),
           opt_maxRetries = (case mRetries of Some n \<Rightarrow> n | None \<Rightarrow> 3),
           opt_retryDelay = (case rDelay of Some n \<Rightarrow> n | None \<Rightarrow> 5000),
           opt_storageKey = (case sKey of Some k \<Rightarrow> k | None \<Rightarrow> ''offline-queue'') \<rparr>,
       objects = (\<lambda>r. blank), nextRef = 0, queue = [], handlers = Map.empty,
       processing = False, online = True, syncTimer = False, invoked = [] \<rparr>"

definition registerHandler :: "string \<Rightarrow> 'p ActionHandler \<Rightarrow> 'p OfflineQueue \<Rightarrow> 'p OfflineQueue" where
  "registerHandler t handler q = q\<lparr>handlers := (handlers q)(t \<mapsto> handler)\<rparr>"

definition scheduleRetry :: "'p OfflineQueue \<Rightarrow> 'p OfflineQueue" where
  "scheduleRetry q = q\<lparr>syncTimer := True\<rparr>"

text \<open>
  The body of the loop \<open>for (const action of pendingActions)\<close> for the action at
  reference \<open>r\<close>, and the loop itself.
\<close>

definition processAction :: "nat \<Rightarrow> 'p OfflineQueue \<Rightarrow> 'p OfflineQueue" where
  "processAction r q =
     (let action = objects q r in
      case handlers q (atype action) of
        None \<Rightarrow>
          q\<lparr>objects := (objects q)(r := action\<lparr>status := Failed,
                error := Some (''No handler for action type: '' @ atype action)\<rparr>)\<rparr>
      | Some handler \<Rightarrow>
          (let a1 = action\<lparr>status := Processing\<rparr>;
               q1 = q\<lparr>objects := (objects q)(r := a1), invoked := invoked q @ [r]\<rparr>
           in case handler a1 of
                None \<Rightarrow> q1\<lparr>objects := (objects q1)(r := a1\<lparr>status := Completed\<rparr>)\<rparr>
              | Some err \<Rightarrow>
                  (let a2 = a1\<lparr>retryCount := retryCount a1 + 1\<rparr>;
                       a3 = (if retryCount a2 \<ge> maxRetries a2
                             then a2\<lparr>status := Failed, error := Some (errorMessage err)\<rparr>
                             else a2\<lparr>status := Pending\<rparr>)
                   in q1\<lparr>objects := (objects q1)(r := a3)\<rparr>)))"

fun processActions :: "nat list \<Rightarrow> 'p OfflineQueue \<Rightarrow> 'p OfflineQueue" where
  "processActions [] q = q"
| "processActions (r # rest) q = processActions rest (processAction r q)"

definition processQueue :: "'p OfflineQueue \<Rightarrow> 'p OfflineQueue" where
  "processQueue q =
     (if processing q \<or> \<not> online q then q
      else
        (let q1 = q\<lparr>processing := True\<rparr>;
             pendingActions = filter (\<lambda>r. status (objects q1 r) = Pending) (queue q1);
             q2 = processActions pendingActions q1;
             q3 = q2\<lparr>queue := filter (\<lambda>r. status (objects q2 r) \<noteq> Completed) (queue q2)\<rparr>;
             q4 = q3\<lparr>processing := False\<rparr>;
             hasRetryable = list_ex (\<lambda>r. status (objects q4 r) = Pending) (queue q4)
         in if hasRetryable then scheduleRetry q4 else q4))"

text \<open>
  A pass seen from a caller that does not await it. \<open>processQueue()\<close> runs without
  interruption up to its first \<open>await\<close>: it sets \<open>processing\<close>, takes the snapshot,
  marks Failed the leading actions that have no handler and marks Processing the first
  action that has one (\<open>passPrefix\<close>, which returns the actions still to do); if no
  action has a handler the loop ends and the queue is filtered. \<open>passStart\<close> is that
  part, with \<open>None\<close> when the guard returns at once; \<open>passFinish\<close> is the rest of
  the pass. One after the other they are \<open>processQueue\<close> (lemma
  \<open>passStart_passFinish\<close> below).
\<close>

fun passPrefix :: "nat list \<Rightarrow> 'p OfflineQueue \<Rightarrow> nat list \<times> 'p OfflineQueue" where
  "passPrefix [] q = ([], q)"
| "passPrefix (r # rest) q =
     (case handlers q (atype (objects q r)) of
        None \<Rightarrow> passPrefix rest (processAction r q)
      | Some handler \<Rightarrow>
          (r # rest, q\<lparr>objects := (objects q)(r := (objects q r)\<lparr>status := Processing\<rparr>)\<rparr>))"

definition passStart :: "'p OfflineQueue \<Rightarrow> nat list option \<times> 'p OfflineQueue" where
  "passStart q =
     (if processing q \<or> \<not> online q then (None, q)
      else
        (let q1 = q\<lparr>processing := True\<rparr>;
             pendingActions = filter (\<lambda>r. status (objects q1 r) = Pending) (queue q1)
         in case passPrefix pendingActions q1 of
              ([], q2) \<Rightarrow>
                (Some [], q2\<lparr>queue := filter (\<lambda>r. status (objects q2 r) \<noteq> Completed) (queue q2)\<rparr>)
            | (r # rest, q2) \<Rightarrow> (Some (r # rest), q2)))"

definition passFinish :: "nat list \<Rightarrow> 'p OfflineQueue \<Rightarrow> 'p OfflineQueue" where
  "passFinish remaining q =
     (let q2 = processActions remaining q;
          q3 = q2\<lparr>queue := filter (\<lambda>r. status (objects q2 r) \<noteq> Completed) (queue q2)\<rparr>;
          q4 = q3\<lparr>processing := False\<rparr>;
          hasRetryable = list_ex (\<lambda>r. status (objects q4 r) = Pending) (queue q4)
      in if hasRetryable then scheduleRetry q4 else q4)"

text \<open>\<open>setOnline\<close> of the queue up to the first \<open>await\<close> of the pass it may start.\<close>

definition queue_setOnline_start :: "bool \<Rightarrow> 'p OfflineQueue \<Rightarrow> nat list option \<times> 'p OfflineQueue" where
  "queue_setOnline_start on q =
     (let wasOffline = \<not> online q;
          q1 = q\<lparr>online := on\<rparr>
      in if on \<and> wasOffline then passStart q1 else (None, q1))"

text \<open>
  \<open>enqueue\<close>: \<open>Inl\<close> is the thrown error. The identifier \<open>generateId()\<close> builds from
  the clock and \<open>Math.random()\<close> is the parameter \<open>newId\<close>.
\<close>

definition enqueue ::
  "int \<Rightarrow> string \<Rightarrow> string \<Rightarrow> 'p \<Rightarrow> 'p OfflineQueue \<Rightarrow> (string + string) \<times> 'p OfflineQueue" where
  "enqueue now newId t p q =
     (if int (length (queue q)) \<ge> opt_maxQueueSize (queueOptions q)
      then (Inl ''Queue is full'', q)
      else
        (let action = \<lparr> action_id = newId, atype = t, payload = p, enqueuedAt = now,
                         retryCount = 0, maxRetries = opt_maxRetries (queueOptions q),
                         status = Pending, error = None \<rparr>;
             r = nextRef q;
             q1 = q\<lparr>objects := (objects q)(r := action), nextRef := Suc r, queue := queue q @ [r]\<rparr>
         in (Inr (action_id action),
             if online q1 \<and> \<not> processing q1 then processQueue q1 else q1)))"

definition queue_setOnline :: "bool \<Rightarrow> 'p OfflineQueue \<Rightarrow> 'p OfflineQueue" where
  "queue_setOnline on q =
     (let wasOffline = \<not> online q;
          q1 = q\<lparr>online := on\<rparr>
      in if on \<and> wasOffline then processQueue q1 else q1)"

definition getQueue :: "'p OfflineQueue \<Rightarrow> 'p QueuedAction list" where
  "getQueue q = map (objects q) (queue q)"

definition getPendingCount :: "'p OfflineQueue \<Rightarrow> nat" where
  "getPendingCount q = length (filter (\<lambda>r. status (objects q r) = Pending) (queue q))"

definition getFailedCount :: "'p OfflineQueue \<Rightarrow> nat" where
  "getFailedCount q = length (filter (\<lambda>r. status (objects q r) = Failed) (queue q))"

definition clearFailed :: "'p OfflineQueue \<Rightarrow> 'p OfflineQueue" where
  "clearFailed q = q\<lparr>queue := filter (\<lambda>r. status (objects q r) \<noteq> Failed) (queue q)\<rparr>"

definition clearAll :: "'p OfflineQueue \<Rightarrow> 'p OfflineQueue" where
  "clearAll q = q\<lparr>queue := []\<rparr>"

definition retryFailed :: "'p OfflineQueue \<Rightarrow> 'p OfflineQueue" where
  "retryFailed q =
     processQueue
       (q\<lparr>objects := (\<lambda>r. if r \<in> set (queue q) \<and> status (objects q r) = Failed
                           then (objects q r)\<lparr>status := Pending, retryCount := 0, error := None\<rparr>
                           else objects q r)\<rparr>)"

text \<open>The callback of the timer set by \<open>scheduleRetry\<close>.\<close>

definition retryTimerFires :: "'p OfflineQueue \<Rightarrow> 'p OfflineQueue" where
  "retryTimerFires q =
     (if syncTimer q
      then (let q1 = q\<lparr>syncTimer := False\<rparr> in if online q1 then processQueue q1 else q1)
      else q)"

definition queue_dispose :: "'p OfflineQueue \<Rightarrow> 'p OfflineQueue" where
  "queue_dispose q = q\<lparr>syncTimer := False\<rparr>"

text \<open>
  Well-formedness of the store: the references in the queue are distinct and allocated.
  Every operation keeps it (see the lemmas on \<open>queueRefsValid\<close> below), since
  \<open>enqueue\<close> creates a new object for each action.
\<close>

definition queueRefsValid :: "'p OfflineQueue \<Rightarrow> bool" where
  "queueRefsValid q \<longleftrightarrow> distinct (queue q) \<and> list_all (\<lambda>r. r < nextRef q) (queue q)"

subsection \<open>Concrete queues\<close>

text \<open>
  Two runs of the queue used to evaluate the properties below. \<open>blankAction\<close> fills
  the references that no \<open>enqueue\<close> has allocated yet; it is never read.
  \<open>retryScenario m\<close>: a queue built with \<open>maxRetries = m\<close>, taken offline, with one
  action enqueued whose handler always rejects. \<open>orderScenario\<close>: actions A (type X),
  B (type Y) and C (type X) enqueued in that order while offline.
\<close>

definition blankAction :: "unit QueuedAction" where
  "blankAction = \<lparr> action_id = [], atype = [], payload = (), enqueuedAt = 0, retryCount = 0,
     maxRetries = 0, status = Completed, error = None \<rparr>"

definition alwaysRejects :: "unit ActionHandler" where
  "alwaysRejects a = Some (ErrorObject ''offline'')"

definition alwaysResolves :: "unit ActionHandler" where
  "alwaysResolves a = None"

definition retryScenario :: "int \<Rightarrow> unit OfflineQueue" where
  "retryScenario m =
     snd (enqueue 1 ''1-a'' ''X'' ()
       (registerHandler ''X'' alwaysRejects
         (queue_setOnline False (newOfflineQueue None (Some m) None None blankAction))))"

definition orderScenario :: "unit OfflineQueue" where
  "orderScenario =
     snd (enqueue 3 ''3-c'' ''X'' ()
       (snd (enqueue 2 ''2-b'' ''Y'' ()
         (snd (enqueue 1 ''1-a'' ''X'' ()
           (registerHandler ''Y'' alwaysRejects
             (registerHandler ''X'' alwaysResolves
               (queue_setOnline False (newOfflineQueue None None None None blankAction)))))))))"

lemmas scenario_defs = retryScenario_def orderScenario_def blankAction_def alwaysRejects_def
  alwaysResolves_def enqueue_def registerHandler_def queue_setOnline_def newOfflineQueue_def
  processQueue_def processAction_def scheduleRetry_def Let_def

section \<open>Sync Coordinator (packages/core/src/cache/sync-manager.ts)\<close>

text \<open>
  An entity is any object with the fields of \<open>SyncableEntity\<close>: the extensible record
  below, whose extension holds the other fields of \<open>T\<close>. Optional fields are options.
  \<open>fetchRemote\<close> is called at most once, so it is given as its outcome: \<open>Inl\<close> when
  it throws, \<open>Inr None\<close> for \<open>null\<close>. \<open>saveRemote\<close> and a merge resolver are functions
  to an outcome. The clock readings \<open>Date.now()\<close> are parameters.

  A subscriber (\<open>on(handler)\<close>) is a function from the event to \<open>None\<close> when it
  returns and \<open>Some e\<close> when it throws \<open>e\<close>; subscribers are kept with a number that
  stands for the identity of the function, in the order they were added. \<open>emitted\<close>
  logs the events passed to \<open>emit\<close>, \<open>notified\<close> the subscriber calls, oldest first.
\<close>

record SyncableEntity =
  entity_id :: string
  updatedAt :: int
  syncedAt :: "int option"
  isLocal :: "bool option"

datatype Strategy = Local | Remote | Merge | Manual

record 'e ConflictResolution =
  strategy :: Strategy
  resolver :: "('e \<Rightarrow> 'e \<Rightarrow> rejection + 'e) option"

datatype SyncEventType =
  Online | Offline | Sync_started | Sync_completed | Sync_failed
  | Conflict_detected | Entity_synced

text \<open>
  The \<open>data\<close> of an event: none, \<open>{entityType, id}\<close>, \<open>{entityType, id, local, remote}\<close>
  or \<open>{error}\<close>.
\<close>

datatype 'e SyncEventData =
  NoData | EntityData string string | ConflictData string string 'e 'e | ErrorData string

record 'e SyncEvent =
  event_type :: SyncEventType
  event_timestamp :: int
  event_data :: "'e SyncEventData"

type_synonym 'e SyncEventHandler = "'e SyncEvent \<Rightarrow> rejection option"

record SyncStatus =
  isOnline :: bool
  isSyncing :: bool
  lastSyncAt :: "int option"
  pendingCount :: nat
  failedCount :: nat
  syncErrors :: "string list"

text \<open>
  \<open>statusStorageThrows\<close>: \<open>Some e\<close> when the storage adapter's \<open>set\<close> throws \<open>e\<close>;
  \<open>savedStatus\<close> is the value stored under \<open>sync-status\<close>.
\<close>

record ('p, 'e) SyncManager =
  sm_queue :: "'p OfflineQueue"
  sm_status :: SyncStatus
  conflictStrategies :: "string \<rightharpoonup> 'e ConflictResolution"
  sm_eventHandlers :: "(nat \<times> 'e SyncEventHandler) list"
  emitted :: "'e SyncEvent list"
  notified :: "(nat \<times> 'e SyncEvent) list"
  savedStatus :: "int option option"
  statusStorageThrows :: "rejection option"

definition newSyncManager :: "'p OfflineQueue \<Rightarrow> ('p, 'e) SyncManager" where
  "newSyncManager q =
     \<lparr> sm_queue = q,
       sm_status = \<lparr> isOnline = True, isSyncing = False, lastSyncAt = None,
                     pendingCount = 0, failedCount = 0, syncErrors = [] \<rparr>,
       conflictStrategies = Map.empty, sm_eventHandlers = [], emitted = [], notified = [],
       savedStatus = None, statusStorageThrows = None \<rparr>"

definition setConflictStrategy ::
  "string \<Rightarrow> 'e ConflictResolution \<Rightarrow> ('p, 'e) SyncManager \<Rightarrow> ('p, 'e) SyncManager" where
  "setConflictStrategy entityType resolution m =
     m\<lparr>conflictStrategies := (conflictStrategies m)(entityType \<mapsto> resolution)\<rparr>"

text \<open>\<open>on(handler)\<close> adds to a \<open>Set\<close>; the function it returns deletes the handler.\<close>

definition sm_on :: "nat \<Rightarrow> 'e SyncEventHandler \<Rightarrow> ('p, 'e) SyncManager \<Rightarrow> ('p, 'e) SyncManager" where
  "sm_on i handler m =
     (if i \<in> fst ` set (sm_eventHandlers m) then m
      else m\<lparr>sm_eventHandlers := sm_eventHandlers m @ [(i, handler)]\<rparr>)"

definition sm_off :: "nat \<Rightarrow> ('p, 'e) SyncManager \<Rightarrow> ('p, 'e) SyncManager" where
  "sm_off i m = m\<lparr>sm_eventHandlers := filter (\<lambda>s. fst s \<noteq> i) (sm_eventHandlers m)\<rparr>"

text \<open>
  \<open>emit\<close> calls the subscribers in order (\<open>eventHandlers.forEach\<close>); the first one
  that throws ends the loop and the error leaves \<open>emit\<close>. \<open>notify\<close> is that loop: it
  returns the error thrown, if any, and the calls made.
\<close>

fun notify ::
  "(nat \<times> 'e SyncEventHandler) list \<Rightarrow> 'e SyncEvent \<Rightarrow> rejection option \<times> (nat \<times> 'e SyncEvent) list" where
  "notify [] event = (None, [])"
| "notify ((i, handler) # rest) event =
     (case handler event of
        Some err \<Rightarrow> (Some err, [(i, event)])
      | None \<Rightarrow> (case notify rest event of (thrown, calls) \<Rightarrow> (thrown, (i, event) # calls)))"

definition emit :: "'e SyncEvent \<Rightarrow> ('p, 'e) SyncManager \<Rightarrow> rejection option \<times> ('p, 'e) SyncManager" where
  "emit event m =
     (case notify (sm_eventHandlers m) event of
        (thrown, calls) \<Rightarrow> (thrown, m\<lparr>emitted := emitted m @ [event], notified := notified m @ calls\<rparr>))"

text \<open>No subscriber throws on the event.\<close>

definition subscribersAccept :: "('p, 'e) SyncManager \<Rightarrow> 'e SyncEvent \<Rightarrow> bool" where
  "subscribersAccept m event \<longleftrightarrow> list_all (\<lambda>s. snd s event = None) (sm_eventHandlers m)"

definition updateCounts :: "('p, 'e) SyncManager \<Rightarrow> ('p, 'e) SyncManager" where
  "updateCounts m =
     m\<lparr>sm_status := (sm_status m)\<lparr>pendingCount := getPendingCount (sm_queue m),
                                     failedCount := getFailedCount (sm_queue m)\<rparr>\<rparr>"

text \<open>
  \<open>sync\<close> returns the error that leaves it, if any, and the manager. The first
  \<open>emit\<close> stands before the \<open>try\<close> block: a subscriber that throws there ends
  \<open>sync\<close> with \<open>isSyncing\<close> still set. Inside the \<open>try\<close> block the queue's pass
  swallows every error; \<open>saveStatus\<close> and the second \<open>emit\<close> can throw, which the
  \<open>catch\<close> block records and reports with a third \<open>emit\<close>. The \<open>finally\<close> block runs
  on every path out of the \<open>try\<close> block.
\<close>

definition syncTry :: "int \<Rightarrow> ('p, 'e) SyncManager \<Rightarrow> rejection option \<times> ('p, 'e) SyncManager" where
  "syncTry now m =
     (let m3 = m\<lparr>sm_queue := processQueue (sm_queue m)\<rparr>;
          m4 = m3\<lparr>sm_status := (sm_status m3)\<lparr>lastSyncAt := Some now\<rparr>\<rparr>
      in case statusStorageThrows m4 of
           Some err \<Rightarrow> (Some err, m4)
         | None \<Rightarrow>
             emit \<lparr>event_type = Sync_completed, event_timestamp = now, event_data = NoData\<rparr>
               (m4\<lparr>savedStatus := Some (lastSyncAt (sm_status m4))\<rparr>))"

definition sync :: "int \<Rightarrow> ('p, 'e) SyncManager \<Rightarrow> rejection option \<times> ('p, 'e) SyncManager" where
  "sync now m =
     (if isSyncing (sm_status m) \<or> \<not> isOnline (sm_status m) then (None, m)
      else
        (let m1 = m\<lparr>sm_status := (sm_status m)\<lparr>isSyncing := True, syncErrors := []\<rparr>\<rparr>
         in case emit \<lparr>event_type = Sync_started, event_timestamp = now, event_data = NoData\<rparr> m1 of
              (Some err, m2) \<Rightarrow> (Some err, m2)
            | (None, m2) \<Rightarrow>
                (case (case syncTry now m2 of
                         (None, m5) \<Rightarrow> (None, m5)
                       | (Some err, m5) \<Rightarrow>
                           (let failure = (case err of ErrorObject msg \<Rightarrow> msg | OtherValue \<Rightarrow> ''Sync failed'')
                            in emit \<lparr>event_type = Sync_failed, event_timestamp = now,
                                      event_data = ErrorData failure\<rparr>
                                 (m5\<lparr>sm_status := (sm_status m5)\<lparr>syncErrors :=
                                        syncErrors (sm_status m5) @ [failure]\<rparr>\<rparr>)))
                 of (thrown, m6) \<Rightarrow>
                      (thrown, updateCounts (m6\<lparr>sm_status := (sm_status m6)\<lparr>isSyncing := False\<rparr>\<rparr>)))))"

text \<open>\<open>local.syncedAt || 0\<close>: an absent or zero timestamp reads as 0.\<close>

definition orZero :: "int option \<Rightarrow> int" where
  "orZero t = (case t of None \<Rightarrow> 0 | Some v \<Rightarrow> if v = 0 then 0 else v)"

definition resolveConflict ::
  "'z SyncableEntity_scheme \<Rightarrow> 'z SyncableEntity_scheme
     \<Rightarrow> 'z SyncableEntity_scheme ConflictResolution option
     \<Rightarrow> rejection + 'z SyncableEntity_scheme" where
  "resolveConflict local remote strat =
     (case strat of
        None \<Rightarrow> Inr (if updatedAt local > updatedAt remote then local else remote)
      | Some s \<Rightarrow>
          (case strategy s of
             Local \<Rightarrow> Inr local
           | Remote \<Rightarrow> Inr remote
           | Merge \<Rightarrow> (case resolver s of Some f \<Rightarrow> f local remote | None \<Rightarrow> Inr local)
           | Manual \<Rightarrow> Inr (local\<lparr>isLocal := Some True\<rparr>)))"

text \<open>
  The \<open>try\<close> block of \<open>syncEntity\<close>: its outcome (\<open>Inl\<close> when something in it
  throws: \<open>fetchRemote\<close>, \<open>saveRemote\<close>, a resolver or a subscriber), the arguments
  \<open>saveRemote\<close> was invoked with, and the manager with the events emitted up to the
  throw. \<open>tEmit\<close> is the clock reading of the event, \<open>tRet\<close> the one of the returned
  \<open>syncedAt\<close>.
\<close>

definition pushLocal ::
  "int \<Rightarrow> int \<Rightarrow> string \<Rightarrow> 'z SyncableEntity_scheme
     \<Rightarrow> ('z SyncableEntity_scheme \<Rightarrow> rejection + 'z SyncableEntity_scheme)
     \<Rightarrow> ('p, 'z SyncableEntity_scheme) SyncManager
     \<Rightarrow> (rejection + 'z SyncableEntity_scheme) \<times> 'z SyncableEntity_scheme list
          \<times> ('p, 'z SyncableEntity_scheme) SyncManager" where
  "pushLocal tEmit tRet entityType local saveRemote m =
     (case saveRemote local of
        Inl err \<Rightarrow> (Inl err, [local], m)
      | Inr saved \<Rightarrow>
          (case emit \<lparr>event_type = Entity_synced, event_timestamp = tEmit,
                       event_data = EntityData entityType (entity_id local)\<rparr> m of
             (Some err, m1) \<Rightarrow> (Inl err, [local], m1)
           | (None, m1) \<Rightarrow>
               (Inr (saved\<lparr>syncedAt := Some tRet, isLocal := Some False\<rparr>), [local], m1)))"

definition syncEntityTry ::
  "int \<Rightarrow> int \<Rightarrow> string \<Rightarrow> 'z SyncableEntity_scheme
     \<Rightarrow> (rejection + 'z SyncableEntity_scheme option)
     \<Rightarrow> ('z SyncableEntity_scheme \<Rightarrow> rejection + 'z SyncableEntity_scheme)
     \<Rightarrow> ('p, 'z SyncableEntity_scheme) SyncManager
     \<Rightarrow> (rejection + 'z SyncableEntity_scheme) \<times> 'z SyncableEntity_scheme list
          \<times> ('p, 'z SyncableEntity_scheme) SyncManager" where
  "syncEntityTry tEmit tRet entityType local fetchRemote saveRemote m =
     (case fetchRemote of
        Inl err \<Rightarrow> (Inl err, [], m)
      | Inr None \<Rightarrow> pushLocal tEmit tRet entityType local saveRemote m
      | Inr (Some remote) \<Rightarrow>
          if updatedAt remote > orZero (syncedAt local) \<and> updatedAt local > orZero (syncedAt local)
          then
            (case emit \<lparr>event_type = Conflict_detected, event_timestamp = tEmit,
                         event_data = ConflictData entityType (entity_id local) local remote\<rparr> m of
               (Some err, m1) \<Rightarrow> (Inl err, [], m1)
             | (None, m1) \<Rightarrow>
                 (case resolveConflict local remote (conflictStrategies m1 entityType) of
                    Inl err \<Rightarrow> (Inl err, [], m1)
                  | Inr resolved \<Rightarrow>
                      (case saveRemote resolved of
                         Inl err \<Rightarrow> (Inl err, [resolved], m1)
                       | Inr saved \<Rightarrow>
                           (Inr (saved\<lparr>syncedAt := Some tRet, isLocal := Some False\<rparr>),
                            [resolved], m1))))
          else if updatedAt local > updatedAt remote
          then pushLocal tEmit tRet entityType local saveRemote m
          else (Inr (remote\<lparr>syncedAt := Some tRet, isLocal := Some False\<rparr>), [], m))"

text \<open>
  \<open>syncEntity\<close> returns the entity, the arguments of the \<open>saveRemote\<close> calls it made,
  and the manager. The \<open>catch\<close> block turns every error of the \<open>try\<close> block into the
  local entity marked \<open>isLocal\<close>.
\<close>

definition syncEntity ::
  "int \<Rightarrow> int \<Rightarrow> string \<Rightarrow> 'z SyncableEntity_scheme
     \<Rightarrow> (rejection + 'z SyncableEntity_scheme option)
     \<Rightarrow> ('z SyncableEntity_scheme \<Rightarrow> rejection + 'z SyncableEntity_scheme)
     \<Rightarrow> ('p, 'z SyncableEntity_scheme) SyncManager
     \<Rightarrow> 'z SyncableEntity_scheme \<times> 'z SyncableEntity_scheme list
          \<times> ('p, 'z SyncableEntity_scheme) SyncManager" where
  "syncEntity tEmit tRet entityType local fetchRemote saveRemote m =
     (if \<not> isOnline (sm_status m) then (local\<lparr>isLocal := Some True\<rparr>, [], m)
      else
        (case syncEntityTry tEmit tRet entityType local fetchRemote saveRemote m of
           (Inr result, saves, m') \<Rightarrow> (result, saves, m')
         | (Inl err, saves, m') \<Rightarrow> (local\<lparr>isLocal := Some True\<rparr>, saves, m')))"

text \<open>
  \<open>setOnline\<close> returns the error that leaves it, if any, and the manager. Neither
  the pass that \<open>queue.setOnline\<close> starts nor \<open>sync()\<close> is awaited. The pass has run
  up to its first \<open>await\<close> when \<open>queue.setOnline\<close> returns (\<open>queue_setOnline_start\<close>),
  so it is in flight, with \<open>processing\<close> set, while the rest of \<open>setOnline\<close> runs:
  the \<open>processQueue()\<close> that \<open>sync()\<close> calls then returns at once. The model lets
  \<open>sync()\<close> finish first and the pass in flight after it. An error that leaves
  \<open>sync()\<close> rejects a promise nobody reads; an error of a subscriber of \<open>online\<close> or
  \<open>offline\<close> leaves \<open>setOnline\<close>.
\<close>

definition setOnline :: "int \<Rightarrow> bool \<Rightarrow> ('p, 'e) SyncManager \<Rightarrow> rejection option \<times> ('p, 'e) SyncManager" where
  "setOnline now on m =
     (let wasOffline = \<not> isOnline (sm_status m);
          m1 = m\<lparr>sm_status := (sm_status m)\<lparr>isOnline := on\<rparr>\<rparr>
      in case queue_setOnline_start on (sm_queue m1) of
           (inFlight, q1) \<Rightarrow>
             (case (if on
                    then (case emit \<lparr>event_type = Online, event_timestamp = now, event_data = NoData\<rparr>
                                 (m1\<lparr>sm_queue := q1\<rparr>) of
                            (Some err, m3) \<Rightarrow> (Some err, m3)
                          | (None, m3) \<Rightarrow> if wasOffline then (None, snd (sync now m3)) else (None, m3))
                    else emit \<lparr>event_type = Offline, event_timestamp = now, event_data = NoData\<rparr>
                           (m1\<lparr>sm_queue := q1\<rparr>))
              of (thrown, m4) \<Rightarrow>
                   (thrown,
                    (case inFlight of
                       None \<Rightarrow> m4
                     | Some remaining \<Rightarrow> m4\<lparr>sm_queue := passFinish remaining (sm_queue m4)\<rparr>))))"

definition getStatus :: "('p, 'e) SyncManager \<Rightarrow> SyncStatus \<times> ('p, 'e) SyncManager" where
  "getStatus m = (let m1 = updateCounts m in (sm_status m1, m1))"

definition hasPendingChanges :: "('p, 'e) SyncManager \<Rightarrow> bool" where
  "hasPendingChanges m \<longleftrightarrow> pendingCount (sm_status m) > 0"

text \<open>The events that report connectivity.\<close>

definition connectivityEvent :: "'e SyncEvent \<Rightarrow> bool" where
  "connectivityEvent e \<longleftrightarrow> event_type e = Online \<or> event_type e = Offline"

subsection \<open>Concrete coordinators and entities\<close>

text \<open>
  A coordinator as constructed (online, no strategy registered, no subscriber), a local
  entity with \<open>updatedAt = 10\<close> and \<open>syncedAt = 5\<close>, a remote copy with a given
  \<open>updatedAt\<close>, a \<open>saveRemote\<close> that returns what it is given and one that always
  throws. \<open>Note\<close> is an entity type with one more field; \<open>serverSave\<close> is a
  \<open>saveRemote\<close> that returns the server's copy, whose title the server has rewritten.
  \<open>watchedManager\<close> has a subscriber that returns on every event;
  \<open>throwingSubscriber\<close> throws on every event.
\<close>

definition idleManager :: "(unit, SyncableEntity) SyncManager" where
  "idleManager = newSyncManager (newOfflineQueue None None None None blankAction)"

definition localEntity :: SyncableEntity where
  "localEntity = \<lparr>entity_id = ''e1'', updatedAt = 10, syncedAt = Some 5, isLocal = None\<rparr>"

definition remoteEntity :: "int \<Rightarrow> SyncableEntity" where
  "remoteEntity t = \<lparr>entity_id = ''e1'', updatedAt = t, syncedAt = None, isLocal = None\<rparr>"

definition echoSave :: "SyncableEntity \<Rightarrow> rejection + SyncableEntity" where
  "echoSave e = Inr e"

definition failingSave :: "SyncableEntity \<Rightarrow> rejection + SyncableEntity" where
  "failingSave e = Inl (ErrorObject ''network down'')"

record Note = SyncableEntity +
  title :: string

definition noteManager :: "(unit, Note) SyncManager" where
  "noteManager = newSyncManager (newOfflineQueue None None None None blankAction)"

definition localNote :: Note where
  "localNote = \<lparr>entity_id = ''n1'', updatedAt = 10, syncedAt = Some 5, isLocal = None,
     title = ''local draft''\<rparr>"

definition remoteNote :: Note where
  "remoteNote = \<lparr>entity_id = ''n1'', updatedAt = 8, syncedAt = None, isLocal = None,
     title = ''old remote''\<rparr>"

definition serverSave :: "Note \<Rightarrow> rejection + Note" where
  "serverSave e = Inr (e\<lparr>title := ''Local Draft (1)''\<rparr>)"

definition noteSaveFails :: "Note \<Rightarrow> rejection + Note" where
  "noteSaveFails e = Inl (ErrorObject ''network down'')"

definition quietSubscriber :: "SyncableEntity SyncEventHandler" where
  "quietSubscriber event = None"

definition watchedManager :: "(unit, SyncableEntity) SyncManager" where
  "watchedManager = sm_on 1 quietSubscriber idleManager"

definition throwingSubscriber :: "Note SyncEventHandler" where
  "throwingSubscriber event = Some (ErrorObject ''subscriber failed'')"

lemmas sync_defs = idleManager_def localEntity_def remoteEntity_def echoSave_def failingSave_def
  noteManager_def localNote_def remoteNote_def serverSave_def noteSaveFails_def
  newSyncManager_def newOfflineQueue_def setConflictStrategy_def syncEntity_def
  syncEntityTry_def pushLocal_def resolveConflict_def orZero_def emit_def

section \<open>Realtime Transport Client (packages/core/src/services/api-client.ts, in src/packages/core/src/types/index.ts)\<close>

text \<open>
  The client owns at most one WebSocket at a time (\<open>ws\<close>), but every socket that
  \<open>connect\<close> has created keeps the four handlers \<open>connect\<close> attached to it, and those
  handlers act on the client, not on the socket. The model therefore keeps all sockets
  created so far (\<open>sockets\<close>, a socket's reference being its index) with their
  \<open>readyState\<close>. The browser delivers a socket's events: \<open>open\<close> to a socket that
  is connecting, \<open>close\<close> once to a socket that is not yet closed (also after
  \<open>close()\<close> was called on it), \<open>message\<close> to an open socket.

  Timers set with \<open>setTimeout\<close> are kept until they fire or are cleared. Subscribers
  are numbers; \<open>delivered\<close> logs each call of a subscriber with the message it got, and
  \<open>sentFrames\<close> each message written to a socket. \<open>promises\<close> is the state of the
  promise \<open>sendAndWait\<close> returned, by correlation id. \<open>new Date()\<close> is the parameter
  \<open>now\<close>; \<open>crypto.randomUUID()\<close> is the parameter \<open>uuid\<close>.
\<close>

datatype WebSocketStatus = Connecting | Connected | Disconnected | Reconnecting | ErrorStatus

datatype ReadyState = CONNECTING | OPEN | CLOSING | CLOSED

datatype 'p Payload = Data 'p | StatusInfo WebSocketStatus | ErrorInfo | EmptyObject

record 'p WebSocketMessage =
  msg_type :: string
  msg_payload :: "'p Payload"
  msg_timestamp :: int
  correlationId :: "string option"

record ConnectionConfig =
  baseUrl :: string
  wsUrl :: string
  timeout :: int
  retryAttempts :: int
  retryDelay :: int

datatype TimerCallback = ReconnectCallback | RequestTimeoutCallback string

datatype 'p Settlement = Unsettled | Resolved "'p Payload" | Rejected string

record 'p JarvisApiClient =
  config :: ConnectionConfig
  accessToken :: "string option"
  ws :: "nat option"
  sockets :: "(string \<times> ReadyState) list"
  wsStatus :: WebSocketStatus
  wsReconnectAttempts :: int
  eventHandlers :: "string \<rightharpoonup> nat list"
  pendingRequests :: "string \<rightharpoonup> nat"
  promises :: "string \<rightharpoonup> 'p Settlement"
  timers :: "(nat \<times> TimerCallback \<times> int) list"
  nextTimer :: nat
  delivered :: "(nat \<times> 'p WebSocketMessage) list"
  sentFrames :: "(nat \<times> 'p WebSocketMessage) list"

definition newJarvisApiClient ::
  "string option \<Rightarrow> string option \<Rightarrow> int option \<Rightarrow> int option \<Rightarrow> int option \<Rightarrow> 'p JarvisApiClient" where
  "newJarvisApiClient bUrl wUrl tmo attempts delay =
     \<lparr> config = \<lparr> baseUrl = (case bUrl of Some u \<Rightarrow> u | None \<Rightarrow> ''http://localhost:3000''),
                  wsUrl = (case wUrl of Some u \<Rightarrow> u | None \<Rightarrow> ''ws://localhost:3000''),
                  timeout = (case tmo of Some t \<Rightarrow> t | None \<Rightarrow> 30000),
                  retryAttempts = (case attempts of Some n \<Rightarrow> n | None \<Rightarrow> 3),
                  retryDelay = (case delay of Some d \<Rightarrow> d | None \<Rightarrow> 1000) \<rparr>,
       accessToken = None, ws = None, sockets = [], wsStatus = Disconnected,
       wsReconnectAttempts = 0, eventHandlers = Map.empty, pendingRequests = Map.empty,
       promises = Map.empty, timers = [], nextTimer = 0, delivered = [], sentFrames = [] \<rparr>"

definition readyState :: "'p JarvisApiClient \<Rightarrow> nat \<Rightarrow> ReadyState" where
  "readyState c i = (if i < length (sockets c) then snd (sockets c ! i) else CLOSED)"

definition setReadyState :: "nat \<Rightarrow> ReadyState \<Rightarrow> 'p JarvisApiClient \<Rightarrow> 'p JarvisApiClient" where
  "setReadyState i st c =
     (if i < length (sockets c) then c\<lparr>sockets := (sockets c)[i := (fst (sockets c ! i), st)]\<rparr> else c)"

definition setTimeout :: "TimerCallback \<Rightarrow> int \<Rightarrow> 'p JarvisApiClient \<Rightarrow> nat \<times> 'p JarvisApiClient" where
  "setTimeout callback delay c =
     (nextTimer c, c\<lparr>timers := timers c @ [(nextTimer c, callback, delay)], nextTimer := Suc (nextTimer c)\<rparr>)"

definition clearTimeout :: "nat \<Rightarrow> 'p JarvisApiClient \<Rightarrow> 'p JarvisApiClient" where
  "clearTimeout tid c = c\<lparr>timers := filter (\<lambda>t. fst t \<noteq> tid) (timers c)\<rparr>"

text \<open>Settling a promise: only the first \<open>resolve\<close> or \<open>reject\<close> has an effect.\<close>

definition settle :: "string \<Rightarrow> 'p Settlement \<Rightarrow> 'p JarvisApiClient \<Rightarrow> 'p JarvisApiClient" where
  "settle cid outcome c =
     (if promises c cid = Some Unsettled then c\<lparr>promises := (promises c)(cid \<mapsto> outcome)\<rparr> else c)"

definition ws_on :: "string \<Rightarrow> nat \<Rightarrow> 'p JarvisApiClient \<Rightarrow> 'p JarvisApiClient" where
  "ws_on event handler c =
     (let hs = (case eventHandlers c event of None \<Rightarrow> [] | Some l \<Rightarrow> l)
      in c\<lparr>eventHandlers := (eventHandlers c)(event \<mapsto> (if handler \<in> set hs then hs else hs @ [handler]))\<rparr>)"

definition unsubscribe :: "string \<Rightarrow> nat \<Rightarrow> 'p JarvisApiClient \<Rightarrow> 'p JarvisApiClient" where
  "unsubscribe event handler c =
     (case eventHandlers c event of
        None \<Rightarrow> c
      | Some hs \<Rightarrow> c\<lparr>eventHandlers := (eventHandlers c)(event \<mapsto> filter (\<lambda>h. h \<noteq> handler) hs)\<rparr>)"

definition ws_emit :: "int \<Rightarrow> string \<Rightarrow> 'p Payload \<Rightarrow> 'p JarvisApiClient \<Rightarrow> 'p JarvisApiClient" where
  "ws_emit now event p c =
     (case eventHandlers c event of
        None \<Rightarrow> c
      | Some hs \<Rightarrow>
          (let message = \<lparr> msg_type = event, msg_payload = p, msg_timestamp = now, correlationId = None \<rparr>
           in c\<lparr>delivered := delivered c @ map (\<lambda>h. (h, message)) hs\<rparr>))"

definition connect :: "'p JarvisApiClient \<Rightarrow> 'p JarvisApiClient" where
  "connect c =
     (if (case ws c of Some i \<Rightarrow> readyState c i = OPEN | None \<Rightarrow> False) then c
      else
        (let c1 = c\<lparr>wsStatus := Connecting\<rparr>;
             url = (case accessToken c1 of
                      Some tok \<Rightarrow> if tok \<noteq> [] then wsUrl (config c1) @ ''?token='' @ tok else wsUrl (config c1)
                    | None \<Rightarrow> wsUrl (config c1))
         in c1\<lparr>ws := Some (length (sockets c1)), sockets := sockets c1 @ [(url, CONNECTING)]\<rparr>))"

definition attemptReconnect :: "int \<Rightarrow> 'p JarvisApiClient \<Rightarrow> 'p JarvisApiClient" where
  "attemptReconnect now c =
     (if wsReconnectAttempts c \<ge> retryAttempts (config c) then ws_emit now ''reconnect_failed'' EmptyObject c
      else
        (let c1 = c\<lparr>wsStatus := Reconnecting, wsReconnectAttempts := wsReconnectAttempts c + 1\<rparr>
         in snd (setTimeout ReconnectCallback (retryDelay (config c1) * wsReconnectAttempts c1) c1)))"

text \<open>The four handlers \<open>connect\<close> attaches to each socket.\<close>

definition onopen :: "int \<Rightarrow> 'p JarvisApiClient \<Rightarrow> 'p JarvisApiClient" where
  "onopen now c =
     ws_emit now ''connection'' (StatusInfo Connected) (c\<lparr>wsStatus := Connected, wsReconnectAttempts := 0\<rparr>)"

definition onclose :: "int \<Rightarrow> 'p JarvisApiClient \<Rightarrow> 'p JarvisApiClient" where
  "onclose now c =
     attemptReconnect now (ws_emit now ''connection'' (StatusInfo Disconnected) (c\<lparr>wsStatus := Disconnected\<rparr>))"

definition onerror :: "int \<Rightarrow> 'p JarvisApiClient \<Rightarrow> 'p JarvisApiClient" where
  "onerror now c = ws_emit now ''error'' ErrorInfo (c\<lparr>wsStatus := ErrorStatus\<rparr>)"

text \<open>
  \<open>message.correlationId && this.pendingRequests.has(message.correlationId)\<close>: the
  empty string is falsy.
\<close>

definition isPendingReply :: "'p JarvisApiClient \<Rightarrow> 'p WebSocketMessage \<Rightarrow> bool" where
  "isPendingReply c message =
     (case correlationId message of
        None \<Rightarrow> False
      | Some cid \<Rightarrow> cid \<noteq> [] \<and> pendingRequests c cid \<noteq> None)"

text \<open>
  \<open>onmessage\<close> gets the parsed frame, \<open>None\<close> when \<open>JSON.parse\<close> throws. The stored
  \<open>resolve\<close> clears the request's timeout and resolves its promise.
\<close>

definition onmessage :: "int \<Rightarrow> 'p WebSocketMessage option \<Rightarrow> 'p JarvisApiClient \<Rightarrow> 'p JarvisApiClient" where
  "onmessage now parsed c =
     (case parsed of
        None \<Rightarrow> c
      | Some message \<Rightarrow>
          if isPendingReply c message
          then
            (case correlationId message of
               None \<Rightarrow> c
             | Some cid \<Rightarrow>
                 (case pendingRequests c cid of
                    None \<Rightarrow> c
                  | Some timeoutId \<Rightarrow>
                      settle cid (Resolved (msg_payload message))
                        (clearTimeout timeoutId (c\<lparr>pendingRequests := (pendingRequests c)(cid := None)\<rparr>))))
          else ws_emit now (msg_type message) (msg_payload message) c)"

definition disconnect :: "'p JarvisApiClient \<Rightarrow> 'p JarvisApiClient" where
  "disconnect c =
     (let c1 = (case ws c of
                  Some i \<Rightarrow>
                    (setReadyState i (if readyState c i = CLOSED then CLOSED else CLOSING) c)\<lparr>ws := None\<rparr>
                | None \<Rightarrow> c)
      in c1\<lparr>wsStatus := Disconnected\<rparr>)"

text \<open>\<open>send\<close>: \<open>Inl\<close> is the thrown error.\<close>

definition send :: "int \<Rightarrow> string \<Rightarrow> 'p \<Rightarrow> 'p JarvisApiClient \<Rightarrow> string + 'p JarvisApiClient" where
  "send now t p c =
     (case ws c of
        None \<Rightarrow> Inl ''WebSocket is not connected''
      | Some i \<Rightarrow>
          if readyState c i \<noteq> OPEN then Inl ''WebSocket is not connected''
          else Inr (c\<lparr>sentFrames := sentFrames c @
                 [(i, \<lparr> msg_type = t, msg_payload = Data p, msg_timestamp = now, correlationId = None \<rparr>)]\<rparr>))"

text \<open>
  \<open>sendAndWait\<close>: \<open>this.ws?.send\<close> writes nothing without a socket; a socket that is
  still connecting throws, which rejects the promise and leaves the pending entry and
  its timer in place; a closing or closed socket drops the frame.
\<close>

definition sendAndWait ::
  "int \<Rightarrow> string \<Rightarrow> string \<Rightarrow> 'p \<Rightarrow> int \<Rightarrow> 'p JarvisApiClient \<Rightarrow> 'p JarvisApiClient" where
  "sendAndWait now uuid t p tmo c =
     (let (timeoutId, c1) = setTimeout (RequestTimeoutCallback uuid) tmo c;
          c2 = c1\<lparr>pendingRequests := (pendingRequests c1)(uuid \<mapsto> timeoutId),
                  promises := (promises c1)(uuid \<mapsto> Unsettled)\<rparr>;
          message = \<lparr> msg_type = t, msg_payload = Data p, msg_timestamp = now, correlationId = Some uuid \<rparr>
      in case ws c2 of
           None \<Rightarrow> c2
         | Some i \<Rightarrow>
             (case readyState c2 i of
                OPEN \<Rightarrow> c2\<lparr>sentFrames := sentFrames c2 @ [(i, message)]\<rparr>
              | CONNECTING \<Rightarrow> settle uuid (Rejected ''InvalidStateError'') c2
              | CLOSING \<Rightarrow> c2
              | CLOSED \<Rightarrow> c2))"

text \<open>A timer fires: its callback runs and the timer is gone.\<close>

definition timerFires :: "nat \<Rightarrow> 'p JarvisApiClient \<Rightarrow> 'p JarvisApiClient" where
  "timerFires tid c =
     (case map_of (timers c) tid of
        None \<Rightarrow> c
      | Some (callback, delay) \<Rightarrow>
          (let c1 = clearTimeout tid c
           in case callback of
                ReconnectCallback \<Rightarrow> connect c1
              | RequestTimeoutCallback cid \<Rightarrow>
                  settle cid (Rejected ''Request timeout'')
                    (c1\<lparr>pendingRequests := (pendingRequests c1)(cid := None)\<rparr>)))"

text \<open>The events of socket \<open>i\<close>, as the browser delivers them.\<close>

definition socketOpens :: "int \<Rightarrow> nat \<Rightarrow> 'p JarvisApiClient \<Rightarrow> 'p JarvisApiClient" where
  "socketOpens now i c =
     (if i < length (sockets c) \<and> readyState c i = CONNECTING then onopen now (setReadyState i OPEN c) else c)"

definition socketCloses :: "int \<Rightarrow> nat \<Rightarrow> 'p JarvisApiClient \<Rightarrow> 'p JarvisApiClient" where
  "socketCloses now i c =
     (if i < length (sockets c) \<and> readyState c i \<noteq> CLOSED then onclose now (setReadyState i CLOSED c) else c)"

definition socketReceives :: "int \<Rightarrow> nat \<Rightarrow> 'p WebSocketMessage option \<Rightarrow> 'p JarvisApiClient \<Rightarrow> 'p JarvisApiClient" where
  "socketReceives now i parsed c =
     (if i < length (sockets c) \<and> readyState c i = OPEN then onmessage now parsed c else c)"

definition getStatus_ws :: "'p JarvisApiClient \<Rightarrow> WebSocketStatus" where
  "getStatus_ws c = wsStatus c"

subsection \<open>Concrete clients\<close>

text \<open>
  A client with the default configuration (three reconnect attempts, one second of
  delay); the same client connected, with subscriber 7 on \<open>ping\<close> and one
  \<open>sendAndWait('ping', {})\<close> in flight under the correlation id \<open>u1\<close>; and an
  incoming \<open>ping\<close> message with a given correlation id.
\<close>

definition freshClient :: "unit JarvisApiClient" where
  "freshClient = newJarvisApiClient None None None None None"

definition waitingClient :: "unit JarvisApiClient" where
  "waitingClient =
     sendAndWait 3 ''u1'' ''ping'' () 30000 (ws_on ''ping'' 7 (socketOpens 2 0 (connect freshClient)))"

definition pingMessage :: "string option \<Rightarrow> unit WebSocketMessage" where
  "pingMessage cid = \<lparr> msg_type = ''ping'', msg_payload = Data (), msg_timestamp = 4, correlationId = cid \<rparr>"

lemmas client_defs = freshClient_def waitingClient_def pingMessage_def newJarvisApiClient_def
  connect_def disconnect_def socketOpens_def socketCloses_def socketReceives_def timerFires_def
  onopen_def onclose_def onmessage_def attemptReconnect_def ws_emit_def ws_on_def sendAndWait_def
  setTimeout_def clearTimeout_def settle_def readyState_def setReadyState_def isPendingReply_def
  Let_def

section \<open>Properties of the Cache Manager\<close>

text \<open>
  C10 (the in-process tier never exceeds \<open>maxEntries\<close>): the code breaks the bound.
  With \<open>maxEntries = 1\<close>, writing \<open>a\<close> and then \<open>b\<close> evicts \<open>a\<close> from the
  in-process tier but leaves it in the persistent tier; reading \<open>a\<close> puts it back
  without a capacity check, and the tier holds two entries.
\<close>

theorem cache_get_promotion_exceeds_maxEntries:
  "length (memoryCache (snd (cache_get 3 ''a''
      (cache_set 2 ''b'' (Some (0::nat)) None
        (cache_set 1 ''a'' (Some (0::nat)) None
          (newCacheManager Map.empty None (Some 1) None)))))) = 2
   \<and> maxEntries (options (snd (cache_get 3 ''a''
      (cache_set 2 ''b'' (Some (0::nat)) None
        (cache_set 1 ''a'' (Some (0::nat)) None
          (newCacheManager Map.empty None (Some 1) None)))))) = 1"
  by (simp add: cache_get_def cache_set_def newCacheManager_def evictOldest_def
      readStorage_def isExpired_def storageKey_def Let_def)

text \<open>
  C9 (eviction at capacity): the code misses the eviction when the oldest entry has the
  empty string as its key. With \<open>maxEntries = 1\<close> and the empty key cached, writing
  the fresh key \<open>b\<close> finds the empty string as \<open>oldestKey\<close>, which
  \<open>if (oldestKey)\<close> reads as false: nothing is evicted and the tier holds both entries.
\<close>

theorem evictOldest_skips_empty_key:
  "map fst (memoryCache (cache_set 1 '''' (Some (0::nat)) None
      (newCacheManager Map.empty None (Some 1) None))) = ['''']
   \<and> map fst (memoryCache (cache_set 2 ''b'' (Some (0::nat)) None
      (cache_set 1 '''' (Some (0::nat)) None
        (newCacheManager Map.empty None (Some 1) None)))) = ['''', ''b'']"
  by (simp add: cache_set_def newCacheManager_def evictOldest_def Let_def)

lemma oldestScan_result:
  "oldestScan xs (ok, ot) = (ok', ot') \<Longrightarrow>
     (\<forall>(k, e) \<in> set xs. \<exists>u. ot' = Some u \<and> u \<le> timestamp e)
     \<and> (\<forall>u. ot = Some u \<longrightarrow> (\<exists>u'. ot' = Some u' \<and> u' \<le> u))
     \<and> ((ok', ot') = (ok, ot) \<or> (\<exists>k e. (k, e) \<in> set xs \<and> ok' = Some k \<and> ot' = Some (timestamp e)))"
proof (induction xs arbitrary: ok ot)
  case Nil
  then show ?case by simp
next
  case (Cons x xs)
  obtain k e where x: "x = (k, e)" by (cases x)
  show ?case
  proof (cases "case ot of None \<Rightarrow> True | Some t \<Rightarrow> timestamp e < t")
    case True
    with Cons.prems x have "oldestScan xs (Some k, Some (timestamp e)) = (ok', ot')" by simp
    from Cons.IH [OF this] True x show ?thesis
      by (fastforce split: option.splits)
  next
    case False
    with Cons.prems x have "oldestScan xs (ok, ot) = (ok', ot')" by simp
    from Cons.IH [OF this] False x show ?thesis
      by (fastforce split: option.splits)
  qed
qed

lemma oldestScan_nonempty:
  assumes "xs \<noteq> []"
  shows "\<exists>k e. (k, e) \<in> set xs \<and> oldestScan xs (None, None) = (Some k, Some (timestamp e))
           \<and> (\<forall>(k', e') \<in> set xs. timestamp e \<le> timestamp e')"
proof -
  obtain ok' ot' where r: "oldestScan xs (None, None) = (ok', ot')" by (cases "oldestScan xs (None, None)")
  obtain k0 e0 where "(k0, e0) \<in> set xs" using assms by (cases xs) auto
  with oldestScan_result [OF r] have "ot' \<noteq> None" by fastforce
  with oldestScan_result [OF r] obtain k e where
    ke: "(k, e) \<in> set xs" "ok' = Some k" "ot' = Some (timestamp e)"
    by auto
  from oldestScan_result [OF r] ke have "\<forall>(k', e') \<in> set xs. timestamp e \<le> timestamp e'"
    by fastforce
  with ke r show ?thesis by blast
qed

lemma length_delete_distinct:
  "distinct (map fst xs) \<Longrightarrow> (k, e) \<in> set xs \<Longrightarrow> Suc (length (AList.delete k xs)) = length xs"
proof (induction xs)
  case Nil
  then show ?case by simp
next
  case (Cons x xs)
  show ?case
  proof (cases "fst x = k")
    case True
    with Cons.prems have "k \<notin> fst ` set xs" by auto
    then have "AList.delete k xs = xs" by (simp add: delete_id)
    with True show ?thesis by simp
  next
    case False
    with Cons show ?thesis by auto
  qed
qed

lemma update_fresh: "map_of xs k = None \<Longrightarrow> AList.update k v xs = xs @ [(k, v)]"
  by (induction xs) (auto split: if_splits)

text \<open>
  The eviction of \<open>set\<close> when no cached key is the empty string: with the tier exactly
  at capacity, writing a fresh key removes one entry, whose write timestamp is the
  smallest, appends the new entry, and every other entry is still returned by \<open>get\<close>
  while it is unexpired.
\<close>

theorem cache_set_evicts_oldest:
  assumes "distinct (map fst (memoryCache c))" "memoryCache c \<noteq> []"
    and "int (length (memoryCache c)) = maxEntries (options c)"
    and "map_of (memoryCache c) k = None" "[] \<notin> fst ` set (memoryCache c)"
  shows "\<exists>ko eo. map_of (memoryCache c) ko = Some eo
    \<and> (\<forall>(k', e') \<in> set (memoryCache c). timestamp eo \<le> timestamp e')
    \<and> memoryCache (cache_set now k d ttlArg c) =
        AList.delete ko (memoryCache c) @
          [(k, \<lparr> data = d, timestamp = now,
                  ttl = (case ttlArg of Some t \<Rightarrow> t | None \<Rightarrow> defaultTtl (options c)), key = k \<rparr>)]
    \<and> length (memoryCache (cache_set now k d ttlArg c)) = length (memoryCache c)
    \<and> (\<forall>k' e'. k' \<noteq> ko \<and> map_of (memoryCache c) k' = Some e' \<and> \<not> isExpired later e'
          \<longrightarrow> fst (cache_get later k' (cache_set now k d ttlArg c)) = data e')"
proof -
  let ?mc = "memoryCache c"
  let ?entry = "\<lparr> data = d, timestamp = now,
                  ttl = (case ttlArg of Some t \<Rightarrow> t | None \<Rightarrow> defaultTtl (options c)), key = k \<rparr>"
  from oldestScan_nonempty [OF assms(2)] obtain ko eo where
    mem: "(ko, eo) \<in> set ?mc" and scan: "oldestScan ?mc (None, None) = (Some ko, Some (timestamp eo))"
    and least: "\<forall>(k', e') \<in> set ?mc. timestamp eo \<le> timestamp e'"
    by blast
  from mem assms(5) have ne: "ko \<noteq> []" by force
  have look: "map_of ?mc ko = Some eo" using mem assms(1) by simp
  have ev: "memoryCache (evictOldest c) = AList.delete ko ?mc"
    using scan ne by (simp add: evictOldest_def)
  have fresh: "map_of (AList.delete ko ?mc) k = None"
    using assms(4) by (simp add: delete_conv')
  have mc': "memoryCache (cache_set now k d ttlArg c) = AList.delete ko ?mc @ [(k, ?entry)]"
    using assms(3) ev update_fresh [OF fresh]
    by (simp add: cache_set_def Let_def evictOldest_def scan ne)
  have len: "length (memoryCache (cache_set now k d ttlArg c)) = length ?mc"
    using length_delete_distinct [OF assms(1) mem] by (simp add: mc')
  have others: "fst (cache_get later k' (cache_set now k d ttlArg c)) = data e'"
    if "k' \<noteq> ko" "map_of ?mc k' = Some e'" "\<not> isExpired later e'" for k' e'
  proof -
    have "map_of (AList.delete ko ?mc) k' = Some e'" using that by (simp add: delete_conv')
    then have "map_of (memoryCache (cache_set now k d ttlArg c)) k' = Some e'"
      by (simp add: mc' map_add_Some_iff)
    then show ?thesis using that(3) by (simp add: cache_get_def)
  qed
  show ?thesis
    using look least mc' len others by blast
qed


text \<open>Writing \<open>c\<close> into the full cache evicts \<open>a\<close> and keeps \<open>b\<close>.\<close>

theorem cache_set_evicts_oldest_witness:
  "distinct (map fst (memoryCache fullCache)) \<and> memoryCache fullCache \<noteq> []
   \<and> int (length (memoryCache fullCache)) = maxEntries (options fullCache)
   \<and> map_of (memoryCache fullCache) ''c'' = None \<and> [] \<notin> fst ` set (memoryCache fullCache)
   \<and> map fst (memoryCache (cache_set 3 ''c'' (Some 30) None fullCache)) = [''b'', ''c'']
   \<and> length (memoryCache (cache_set 3 ''c'' (Some 30) None fullCache)) = length (memoryCache fullCache)
   \<and> fst (cache_get 4 ''b'' (cache_set 3 ''c'' (Some 30) None fullCache)) = Some 20"
proof -
  have h: "distinct (map fst (memoryCache fullCache))" "memoryCache fullCache \<noteq> []"
    "int (length (memoryCache fullCache)) = maxEntries (options fullCache)"
    "map_of (memoryCache fullCache) ''c'' = None" "[] \<notin> fst ` set (memoryCache fullCache)"
    by (simp_all add: fullCache_def cache_set_def newCacheManager_def evictOldest_def Let_def)
  from cache_set_evicts_oldest [OF h, of 3 "Some 30" None 4]
  have "length (memoryCache (cache_set 3 ''c'' (Some 30) None fullCache)) = length (memoryCache fullCache)"
    by blast
  moreover have "map fst (memoryCache (cache_set 3 ''c'' (Some 30) None fullCache)) = [''b'', ''c'']"
    "fst (cache_get 4 ''b'' (cache_set 3 ''c'' (Some 30) None fullCache)) = Some 20"
    by (simp_all add: fullCache_def cache_set_def cache_get_def isExpired_def newCacheManager_def
        evictOldest_def Let_def)
  ultimately show ?thesis using h by simp
qed

lemma length_update_le: "length (AList.update k v xs) \<le> Suc (length xs)"
  by (induction xs) auto

text \<open>
  The part of the capacity bound that holds: \<open>set\<close> keeps the in-process tier within
  \<open>maxEntries\<close> (at least 1) as long as no cached key is the empty string.
\<close>

theorem cache_set_keeps_bound:
  assumes "distinct (map fst (memoryCache c))" "[] \<notin> fst ` set (memoryCache c)"
    and "1 \<le> maxEntries (options c)" "int (length (memoryCache c)) \<le> maxEntries (options c)"
  shows "int (length (memoryCache (cache_set now k d ttlArg c))) \<le> maxEntries (options (cache_set now k d ttlArg c))"
proof -
  let ?mc = "memoryCache c"
  let ?entry = "\<lparr> data = d, timestamp = now,
                  ttl = (case ttlArg of Some t \<Rightarrow> t | None \<Rightarrow> defaultTtl (options c)), key = k \<rparr>"
  have opt: "options (cache_set now k d ttlArg c) = options c"
    by (simp add: cache_set_def Let_def evictOldest_def split: option.split)
  show ?thesis
  proof (cases "int (length ?mc) \<ge> maxEntries (options c)")
    case True
    with assms(3) have ne: "?mc \<noteq> []" by auto
    from oldestScan_nonempty [OF ne] obtain ko eo where
      mem: "(ko, eo) \<in> set ?mc" and scan: "oldestScan ?mc (None, None) = (Some ko, Some (timestamp eo))"
      by blast
    from mem assms(2) have kne: "ko \<noteq> []" by force
    have "memoryCache (cache_set now k d ttlArg c) = AList.update k ?entry (AList.delete ko ?mc)"
      using True scan kne by (simp add: cache_set_def Let_def evictOldest_def)
    moreover have "length (AList.update k ?entry (AList.delete ko ?mc)) \<le> Suc (length (AList.delete ko ?mc))"
      by (rule length_update_le)
    ultimately have "length (memoryCache (cache_set now k d ttlArg c)) \<le> length ?mc"
      using length_delete_distinct [OF assms(1) mem] by simp
    then show ?thesis using assms(4) opt by simp
  next
    case False
    then have "memoryCache (cache_set now k d ttlArg c) = AList.update k ?entry ?mc"
      by (simp add: cache_set_def Let_def)
    moreover have "length (AList.update k ?entry ?mc) \<le> Suc (length ?mc)" by (rule length_update_le)
    ultimately show ?thesis using False opt by simp
  qed
qed

text \<open>The bound on the same write.\<close>

theorem cache_set_keeps_bound_witness:
  "distinct (map fst (memoryCache fullCache)) \<and> [] \<notin> fst ` set (memoryCache fullCache)
   \<and> 1 \<le> maxEntries (options fullCache)
   \<and> int (length (memoryCache fullCache)) \<le> maxEntries (options fullCache)
   \<and> int (length (memoryCache (cache_set 3 ''c'' (Some 30) None fullCache)))
       \<le> maxEntries (options (cache_set 3 ''c'' (Some 30) None fullCache))
   \<and> maxEntries (options (cache_set 3 ''c'' (Some 30) None fullCache)) = 2"
proof -
  have h: "distinct (map fst (memoryCache fullCache))" "[] \<notin> fst ` set (memoryCache fullCache)"
    "1 \<le> maxEntries (options fullCache)"
    "int (length (memoryCache fullCache)) \<le> maxEntries (options fullCache)"
    by (simp_all add: fullCache_def cache_set_def newCacheManager_def evictOldest_def Let_def)
  have "maxEntries (options (cache_set 3 ''c'' (Some 30) None fullCache)) = 2"
    by (simp add: fullCache_def cache_set_def newCacheManager_def evictOldest_def Let_def)
  with cache_set_keeps_bound [OF h, of 3 "''c''" "Some 30" None] h show ?thesis by simp
qed

section \<open>Properties of the Offline Mutation Queue\<close>

lemma processAction_frame:
  "queue (processAction r q) = queue q" "handlers (processAction r q) = handlers q"
  "online (processAction r q) = online q" "processing (processAction r q) = processing q"
  "syncTimer (processAction r q) = syncTimer q" "nextRef (processAction r q) = nextRef q"
  "atype (objects (processAction r q) x) = atype (objects q x)"
  "maxRetries (objects (processAction r q) x) = maxRetries (objects q x)"
  by (simp_all add: processAction_def Let_def split: option.split)

lemma processAction_other:
  "x \<noteq> r \<Longrightarrow> objects (processAction r q) x = objects q x"
  "x \<noteq> r \<Longrightarrow> count_list (invoked (processAction r q)) x = count_list (invoked q) x"
  by (simp_all add: processAction_def Let_def split: option.split)


lemma processAction_rejected:
  assumes "handlers q (atype (objects q r)) = Some h" "h ((objects q r)\<lparr>status := Processing\<rparr>) \<noteq> None"
  shows "retryCount (objects (processAction r q) r) = retryCount (objects q r) + 1"
    "status (objects (processAction r q) r) =
        (if retryCount (objects q r) + 1 \<ge> maxRetries (objects q r) then Failed else Pending)"
    "count_list (invoked (processAction r q)) r = count_list (invoked q) r + 1"
  using assms by (auto simp add: processAction_def Let_def split: option.split)

lemma processActions_frame:
  "queue (processActions ps q) = queue q" "handlers (processActions ps q) = handlers q"
  "online (processActions ps q) = online q" "processing (processActions ps q) = processing q"
  "syncTimer (processActions ps q) = syncTimer q" "nextRef (processActions ps q) = nextRef q"
  "atype (objects (processActions ps q) x) = atype (objects q x)"
  "maxRetries (objects (processActions ps q) x) = maxRetries (objects q x)"
  by (induction ps arbitrary: q; simp add: processAction_frame)+

lemma processActions_other:
  "r \<notin> set ps \<Longrightarrow> objects (processActions ps q) r = objects q r"
  "r \<notin> set ps \<Longrightarrow> count_list (invoked (processActions ps q)) r = count_list (invoked q) r"
  by (induction ps arbitrary: q; simp add: processAction_other)+


lemma processActions_rejected:
  assumes "distinct ps" "r \<in> set ps"
    and "handlers q (atype (objects q r)) = Some h" "\<forall>a. h a \<noteq> None"
  shows "retryCount (objects (processActions ps q) r) = retryCount (objects q r) + 1
    \<and> status (objects (processActions ps q) r) =
        (if retryCount (objects q r) + 1 \<ge> maxRetries (objects q r) then Failed else Pending)
    \<and> count_list (invoked (processActions ps q)) r = count_list (invoked q) r + 1"
  using assms
proof (induction ps arbitrary: q)
  case Nil
  then show ?case by simp
next
  case (Cons p rest)
  show ?case
  proof (cases "p = r")
    case True
    with Cons.prems have notin: "r \<notin> set rest" by simp
    have "h ((objects q r)\<lparr>status := Processing\<rparr>) \<noteq> None" using Cons.prems(4) by blast
    from processAction_rejected [OF Cons.prems(3) this] True
    show ?thesis
      by (simp add: processActions_other [OF notin])
  next
    case False
    with Cons.prems have d: "distinct rest" and m: "r \<in> set rest" by auto
    have "handlers (processAction p q) (atype (objects (processAction p q) r)) = Some h"
      using Cons.prems(3) by (simp add: processAction_frame)
    from Cons.IH [OF d m this Cons.prems(4)] False
    show ?thesis
      by (simp add: processAction_other processAction_frame)
  qed
qed


lemma processQueue_unfold:
  assumes "online q" "\<not> processing q"
  shows "objects (processQueue q) =
           objects (processActions (filter (\<lambda>r. status (objects q r) = Pending) (queue q)) (q\<lparr>processing := True\<rparr>))"
    and "invoked (processQueue q) =
           invoked (processActions (filter (\<lambda>r. status (objects q r) = Pending) (queue q)) (q\<lparr>processing := True\<rparr>))"
    and "queue (processQueue q) =
           filter (\<lambda>r. status (objects (processQueue q) r) \<noteq> Completed) (queue q)"
    and "handlers (processQueue q) = handlers q"
    and "online (processQueue q)" and "\<not> processing (processQueue q)"
  using assms
  by (simp_all add: processQueue_def Let_def scheduleRetry_def processActions_frame)

lemma processQueue_distinct:
  "distinct (queue q) \<Longrightarrow> distinct (queue (processQueue q))"
  by (simp add: processQueue_def Let_def scheduleRetry_def processActions_frame)

lemma processQueue_static:
  "atype (objects (processQueue q) x) = atype (objects q x)"
  "maxRetries (objects (processQueue q) x) = maxRetries (objects q x)"
  by (simp_all add: processQueue_def Let_def scheduleRetry_def processActions_frame)

lemma processQueue_pending_rejected:
  assumes "distinct (queue q)" "r \<in> set (queue q)" "online q" "\<not> processing q"
    and "status (objects q r) = Pending"
    and "handlers q (atype (objects q r)) = Some h" "\<forall>a. h a \<noteq> None"
  shows "r \<in> set (queue (processQueue q))"
    and "retryCount (objects (processQueue q) r) = retryCount (objects q r) + 1"
    and "status (objects (processQueue q) r) =
        (if retryCount (objects q r) + 1 \<ge> maxRetries (objects q r) then Failed else Pending)"
    and "count_list (invoked (processQueue q)) r = count_list (invoked q) r + 1"
proof -
  let ?ps = "filter (\<lambda>r. status (objects q r) = Pending) (queue q)"
  let ?q1 = "q\<lparr>processing := True\<rparr>"
  have d: "distinct ?ps" and m: "r \<in> set ?ps" using assms by simp_all
  have h: "handlers ?q1 (atype (objects ?q1 r)) = Some h" using assms by simp
  note R = processActions_rejected [OF d m h assms(7)]
  show rc: "retryCount (objects (processQueue q) r) = retryCount (objects q r) + 1"
    using R by (simp add: processQueue_unfold [OF assms(3,4)])
  show st: "status (objects (processQueue q) r) =
        (if retryCount (objects q r) + 1 \<ge> maxRetries (objects q r) then Failed else Pending)"
    using R by (simp add: processQueue_unfold [OF assms(3,4)])
  show "count_list (invoked (processQueue q)) r = count_list (invoked q) r + 1"
    using R by (simp add: processQueue_unfold [OF assms(3,4)])
  have "status (objects (processQueue q) r) \<noteq> Completed" using st by simp
  then show "r \<in> set (queue (processQueue q))"
    using assms(2) by (subst processQueue_unfold(3) [OF assms(3,4)]) simp
qed

lemma processQueue_failed_kept:
  assumes "r \<in> set (queue q)" "status (objects q r) = Failed"
  shows "r \<in> set (queue (processQueue q))"
    and "objects (processQueue q) r = objects q r"
    and "count_list (invoked (processQueue q)) r = count_list (invoked q) r"
proof -
  have n: "r \<notin> set (filter (\<lambda>r. status (objects q r) = Pending) (queue q))"
    using assms by simp
  note O = processActions_other [OF n, of "q\<lparr>processing := True\<rparr>"]
  show o: "objects (processQueue q) r = objects q r"
    using O(1) by (simp add: processQueue_def Let_def scheduleRetry_def)
  show "count_list (invoked (processQueue q)) r = count_list (invoked q) r"
    using O(2) by (simp add: processQueue_def Let_def scheduleRetry_def)
  show "r \<in> set (queue (processQueue q))"
    using assms O(1)
    by (simp add: processQueue_def Let_def scheduleRetry_def processActions_frame)
qed

text \<open>A pass split at its first \<open>await\<close> is the pass.\<close>

lemma processAction_marked:
  "handlers q (atype (objects q r)) = Some h \<Longrightarrow>
   processAction r (q\<lparr>objects := (objects q)(r := (objects q r)\<lparr>status := Processing\<rparr>)\<rparr>) = processAction r q"
  by (simp add: processAction_def Let_def split: option.split)

lemma passPrefix_processActions:
  "passPrefix ps q = (remaining, q') \<Longrightarrow> processActions remaining q' = processActions ps q"
proof (induction ps arbitrary: q)
  case Nil
  then show ?case by simp
next
  case (Cons r rest)
  show ?case
  proof (cases "handlers q (atype (objects q r))")
    case None
    with Cons.prems have "passPrefix rest (processAction r q) = (remaining, q')" by simp
    from Cons.IH [OF this] show ?thesis by simp
  next
    case (Some h)
    with Cons.prems have "remaining = r # rest"
      "q' = q\<lparr>objects := (objects q)(r := (objects q r)\<lparr>status := Processing\<rparr>)\<rparr>" by auto
    then show ?thesis using processAction_marked [OF Some] by simp
  qed
qed

lemma passPrefix_frame:
  "passPrefix ps q = (remaining, q') \<Longrightarrow>
     queue q' = queue q \<and> processing q' = processing q \<and> online q' = online q"
proof (induction ps arbitrary: q)
  case Nil
  then show ?case by simp
next
  case (Cons r rest)
  show ?case
  proof (cases "handlers q (atype (objects q r))")
    case None
    with Cons.prems have "passPrefix rest (processAction r q) = (remaining, q')" by simp
    from Cons.IH [OF this] show ?thesis by (simp add: processAction_frame)
  next
    case (Some h)
    with Cons.prems show ?thesis by auto
  qed
qed

lemma passStart_passFinish:
  "passStart q = (Some remaining, q') \<Longrightarrow> passFinish remaining q' = processQueue q"
  "passStart q = (None, q') \<Longrightarrow> q' = q \<and> processQueue q = q"
  "passStart q = (Some remaining, q') \<Longrightarrow> processing q' \<and> processQueue q' = q'"
proof -
  let ?q1 = "q\<lparr>processing := True\<rparr>"
  let ?ps = "filter (\<lambda>r. status (objects q r) = Pending) (queue q)"
  obtain rem q2 where pp: "passPrefix ?ps ?q1 = (rem, q2)" by (cases "passPrefix ?ps ?q1")
  note eq = passPrefix_processActions [OF pp]
  note fr = passPrefix_frame [OF pp]
  show "q' = q \<and> processQueue q = q" if "passStart q = (None, q')"
    using that pp by (auto simp add: passStart_def processQueue_def Let_def split: if_splits list.splits)
  show "passFinish remaining q' = processQueue q" if st: "passStart q = (Some remaining, q')"
  proof -
    from st have g: "\<not> (processing q \<or> \<not> online q)" by (auto simp add: passStart_def split: if_splits)
    show ?thesis
    proof (cases rem)
      case Nil
      with st g pp have r: "remaining = []"
        "q' = q2\<lparr>queue := filter (\<lambda>r. status (objects q2 r) \<noteq> Completed) (queue q2)\<rparr>"
        by (auto simp add: passStart_def Let_def)
      from eq Nil have q2: "q2 = processActions ?ps ?q1" by simp
      show ?thesis using g r q2
        by (simp add: passFinish_def processQueue_def Let_def)
    next
      case (Cons x xs)
      with st g pp have r: "remaining = rem" "q' = q2" by (auto simp add: passStart_def Let_def)
      show ?thesis using g r eq
        by (simp add: passFinish_def processQueue_def Let_def)
    qed
  qed
  show "processing q' \<and> processQueue q' = q'" if st: "passStart q = (Some remaining, q')"
  proof -
    from st have g: "\<not> (processing q \<or> \<not> online q)" by (auto simp add: passStart_def split: if_splits)
    from st g pp fr have "processing q'"
      by (auto simp add: passStart_def Let_def split: list.splits)
    then show ?thesis by (simp add: processQueue_def)
  qed
qed

text \<open>Every operation of the queue keeps the references distinct and allocated.\<close>

lemma queueRefsValid_new: "queueRefsValid (newOfflineQueue a b c d e)"
  by (simp add: queueRefsValid_def newOfflineQueue_def)

lemma queueRefsValid_processQueue: "queueRefsValid q \<Longrightarrow> queueRefsValid (processQueue q)"
  by (auto simp add: queueRefsValid_def processQueue_def Let_def scheduleRetry_def
      processActions_frame list_all_iff)

lemma queueRefsValid_enqueue: "queueRefsValid q \<Longrightarrow> queueRefsValid (snd (enqueue now newId t p q))"
proof -
  assume v: "queueRefsValid q"
  let ?a = "\<lparr> action_id = newId, atype = t, payload = p, enqueuedAt = now,
               retryCount = 0, maxRetries = opt_maxRetries (queueOptions q),
               status = Pending, error = None \<rparr>"
  let ?q1 = "q\<lparr>objects := (objects q)(nextRef q := ?a), nextRef := Suc (nextRef q),
               queue := queue q @ [nextRef q]\<rparr>"
  have "queueRefsValid ?q1" using v by (auto simp add: queueRefsValid_def list_all_iff)
  then show ?thesis
    using v queueRefsValid_processQueue [of ?q1] by (simp add: enqueue_def Let_def)
qed

lemma queueRefsValid_others:
  "queueRefsValid q \<Longrightarrow> queueRefsValid (queue_setOnline b q)"
  "queueRefsValid q \<Longrightarrow> queueRefsValid (clearFailed q)"
  "queueRefsValid q \<Longrightarrow> queueRefsValid (retryFailed q)"
  "queueRefsValid q \<Longrightarrow> queueRefsValid (registerHandler t h q)"
  "queueRefsValid q \<Longrightarrow> queueRefsValid (retryTimerFires q)"
proof -
  assume v: "queueRefsValid q"
  have a: "queueRefsValid (q\<lparr>online := b\<rparr>)" using v by (simp add: queueRefsValid_def)
  show "queueRefsValid (queue_setOnline b q)"
    using a queueRefsValid_processQueue [OF a] by (auto simp add: queue_setOnline_def Let_def)
  show "queueRefsValid (clearFailed q)"
    using v by (auto simp add: queueRefsValid_def clearFailed_def list_all_iff)
  show "queueRefsValid (retryFailed q)"
    unfolding retryFailed_def using v
    by (intro queueRefsValid_processQueue) (simp add: queueRefsValid_def)
  show "queueRefsValid (registerHandler t h q)"
    using v by (simp add: queueRefsValid_def registerHandler_def)
  have c: "queueRefsValid (q\<lparr>syncTimer := False\<rparr>)" using v by (simp add: queueRefsValid_def)
  show "queueRefsValid (retryTimerFires q)"
    using v c queueRefsValid_processQueue [OF c] by (simp add: retryTimerFires_def Let_def)
qed

text \<open>
  C4 (retry exhaustion), as the code has it. Take an action in the queue (whose
  references are distinct, as \<open>queueRefsValid\<close> states) that is Pending
  with \<open>retryCount = 0\<close> and whose handler rejects on every invocation, and run \<open>n\<close>
  processing passes while online. The handler is invoked on the action once per pass
  until \<open>max 1 maxRetries\<close> invocations have failed; the action is Pending before that
  and Failed from then on, with no further invocation, and it stays in the queue: no
  pass removes it. For \<open>maxRetries \<ge> 1\<close> this is exactly \<open>maxRetries\<close> failed
  attempts; for \<open>maxRetries \<le> 0\<close> it is one, since the count is compared only after
  a delivery has failed.
\<close>

theorem processQueue_retry_exhaustion:
  assumes "distinct (queue q)" "r \<in> set (queue q)" "online q" "\<not> processing q"
    and "status (objects q r) = Pending" "retryCount (objects q r) = 0"
    and "handlers q (atype (objects q r)) = Some h" "\<forall>a. h a \<noteq> None"
  shows "r \<in> set (queue ((processQueue ^^ n) q))
    \<and> count_list (invoked ((processQueue ^^ n) q)) r =
        count_list (invoked q) r + min n (nat (max 1 (maxRetries (objects q r))))
    \<and> retryCount (objects ((processQueue ^^ n) q) r) =
        int (min n (nat (max 1 (maxRetries (objects q r)))))
    \<and> status (objects ((processQueue ^^ n) q) r) =
        (if n < nat (max 1 (maxRetries (objects q r))) then Pending else Failed)"
proof -
  let ?M = "nat (max 1 (maxRetries (objects q r)))"
  let ?P = "\<lambda>n. (processQueue ^^ n) q"
  have inv: "distinct (queue (?P n)) \<and> online (?P n) \<and> \<not> processing (?P n)
      \<and> handlers (?P n) = handlers q
      \<and> atype (objects (?P n) r) = atype (objects q r)
      \<and> maxRetries (objects (?P n) r) = maxRetries (objects q r)
      \<and> r \<in> set (queue (?P n))
      \<and> count_list (invoked (?P n)) r = count_list (invoked q) r + min n ?M
      \<and> retryCount (objects (?P n) r) = int (min n ?M)
      \<and> status (objects (?P n) r) = (if n < ?M then Pending else Failed)" for n
  proof (induction n)
    case 0
    show ?case using assms by simp
  next
    case (Suc n)
    let ?s = "?P n"
    have S: "?P (Suc n) = processQueue ?s" by simp
    from Suc.IH have d: "distinct (queue ?s)" and on: "online ?s" and np: "\<not> processing ?s"
      and hs: "handlers ?s = handlers q" and at: "atype (objects ?s r) = atype (objects q r)"
      and mr: "maxRetries (objects ?s r) = maxRetries (objects q r)"
      and mem: "r \<in> set (queue ?s)"
      and cnt: "count_list (invoked ?s) r = count_list (invoked q) r + min n ?M"
      and rc: "retryCount (objects ?s r) = int (min n ?M)"
      and st: "status (objects ?s r) = (if n < ?M then Pending else Failed)"
      by simp_all
    have base: "distinct (queue (processQueue ?s)) \<and> online (processQueue ?s)
        \<and> \<not> processing (processQueue ?s) \<and> handlers (processQueue ?s) = handlers q
        \<and> atype (objects (processQueue ?s) r) = atype (objects q r)
        \<and> maxRetries (objects (processQueue ?s) r) = maxRetries (objects q r)"
      using processQueue_distinct [OF d] processQueue_unfold(4,5,6) [OF on np] hs at mr
      by (simp add: processQueue_static)
    show ?case
    proof (cases "n < ?M")
      case True
      then have pend: "status (objects ?s r) = Pending" using st by simp
      have h: "handlers ?s (atype (objects ?s r)) = Some h" using hs at assms(7) by simp
      note R = processQueue_pending_rejected [OF d mem on np pend h assms(8)]
      have rcn: "retryCount (objects ?s r) = int n" using rc True by simp
      have "int n + 1 \<ge> maxRetries (objects q r) \<longleftrightarrow> \<not> Suc n < ?M" using True by auto
      then show ?thesis
        unfolding S using base R True rcn cnt mr by auto
    next
      case False
      then have failed: "status (objects ?s r) = Failed" using st by simp
      note K = processQueue_failed_kept [OF mem failed]
      show ?thesis
        unfolding S using base K False cnt rc failed by auto
    qed
  qed
  then show ?thesis by blast
qed

text \<open>
  C4 as stated fails for \<open>maxRetries = 0\<close>: the action is Failed after one failed
  delivery, not after zero.
\<close>

theorem zero_maxRetries_counterexample:
  "maxRetries (objects (queue_setOnline True (retryScenario 0)) 0) = 0
   \<and> count_list (invoked (queue_setOnline True (retryScenario 0))) 0 = 1
   \<and> status (objects (queue_setOnline True (retryScenario 0)) 0) = Failed"
  by (simp add: scenario_defs)

text \<open>The retry theorem at \<open>maxRetries = 2\<close> and five passes.\<close>

theorem processQueue_retry_exhaustion_witness:
  "distinct (queue ((retryScenario 2)\<lparr>online := True\<rparr>))
   \<and> 0 \<in> set (queue ((retryScenario 2)\<lparr>online := True\<rparr>))
   \<and> online ((retryScenario 2)\<lparr>online := True\<rparr>)
   \<and> \<not> processing ((retryScenario 2)\<lparr>online := True\<rparr>)
   \<and> status (objects ((retryScenario 2)\<lparr>online := True\<rparr>) 0) = Pending
   \<and> retryCount (objects ((retryScenario 2)\<lparr>online := True\<rparr>) 0) = 0
   \<and> handlers ((retryScenario 2)\<lparr>online := True\<rparr>)
        (atype (objects ((retryScenario 2)\<lparr>online := True\<rparr>) 0)) = Some alwaysRejects
   \<and> (\<forall>a. alwaysRejects a \<noteq> None)
   \<and> 0 \<in> set (queue ((processQueue ^^ 5) ((retryScenario 2)\<lparr>online := True\<rparr>)))
   \<and> count_list (invoked ((processQueue ^^ 5) ((retryScenario 2)\<lparr>online := True\<rparr>))) 0 = 2
   \<and> retryCount (objects ((processQueue ^^ 5) ((retryScenario 2)\<lparr>online := True\<rparr>)) 0) = 2
   \<and> status (objects ((processQueue ^^ 5) ((retryScenario 2)\<lparr>online := True\<rparr>)) 0) = Failed"
proof -
  let ?q = "(retryScenario 2)\<lparr>online := True\<rparr>"
  have h1: "distinct (queue ?q)" and h2: "0 \<in> set (queue ?q)" and h3: "online ?q"
    and h4: "\<not> processing ?q" and h5: "status (objects ?q 0) = Pending"
    and h6: "retryCount (objects ?q 0) = 0"
    and h7: "handlers ?q (atype (objects ?q 0)) = Some alwaysRejects"
    and h9: "maxRetries (objects ?q 0) = 2"
    by (simp_all add: scenario_defs)
  have h8: "\<forall>a. alwaysRejects a \<noteq> None" by (simp add: alwaysRejects_def)
  from processQueue_retry_exhaustion [OF h1 h2 h3 h4 h5 h6 h7 h8, of 5]
  have "0 \<in> set (queue ((processQueue ^^ 5) ?q))
    \<and> count_list (invoked ((processQueue ^^ 5) ?q)) 0 = count_list (invoked ?q) 0 + 2
    \<and> retryCount (objects ((processQueue ^^ 5) ?q) 0) = 2
    \<and> status (objects ((processQueue ^^ 5) ?q) 0) = Failed"
    unfolding h9 by simp
  moreover have "count_list (invoked ?q) 0 = 0" by (simp add: scenario_defs)
  ultimately show ?thesis using h1 h2 h3 h4 h5 h6 h7 h8 by simp
qed



section \<open>Properties of the Sync Coordinator\<close>

lemma notify_accept:
  "list_all (\<lambda>s. snd s event = None) hs \<Longrightarrow> notify hs event = (None, map (\<lambda>s. (fst s, event)) hs)"
  by (induction hs) (auto split: option.splits prod.splits)

lemma emit_accept:
  "subscribersAccept m event \<Longrightarrow>
     emit event m = (None, m\<lparr>emitted := emitted m @ [event],
        notified := notified m @ map (\<lambda>s. (fst s, event)) (sm_eventHandlers m)\<rparr>)"
  by (simp add: emit_def subscribersAccept_def notify_accept)

lemma emit_emitted: "emitted (snd (emit event m)) = emitted m @ [event]"
  by (simp add: emit_def split: prod.splits)

lemma emit_frame:
  "sm_status (snd (emit event m)) = sm_status m" "sm_queue (snd (emit event m)) = sm_queue m"
  "conflictStrategies (snd (emit event m)) = conflictStrategies m"
  "statusStorageThrows (snd (emit event m)) = statusStorageThrows m"
  by (simp_all add: emit_def split: prod.splits)

text \<open>
  C1 (manual strategy): the code does not keep a manual conflict local. \<open>resolveConflict\<close>
  returns the local entity marked \<open>isLocal = true\<close>, but \<open>syncEntity\<close> then passes that
  value to \<open>saveRemote\<close> and returns the saved entity with \<open>isLocal = false\<close>, as for
  every other strategy.
\<close>

theorem manual_conflict_is_saved_and_marked_synced:
  "fst (snd (syncEntity 100 101 ''task'' localEntity (Inr (Some (remoteEntity 9))) echoSave
      (setConflictStrategy ''task'' \<lparr>strategy = Manual, resolver = None\<rparr> idleManager)))
     = [localEntity\<lparr>isLocal := Some True\<rparr>]
   \<and> isLocal (fst (syncEntity 100 101 ''task'' localEntity (Inr (Some (remoteEntity 9))) echoSave
      (setConflictStrategy ''task'' \<lparr>strategy = Manual, resolver = None\<rparr> idleManager)))
     = Some False"
  by (simp add: sync_defs)

text \<open>
  The default policy on any conflict: with no strategy registered and subscribers that
  accept the conflict event, \<open>saveRemote\<close> is invoked once, with the last writer (local
  when its \<open>updatedAt\<close> is greater, else remote). The call returns \<open>saveRemote\<close>'s
  result marked synced, or the local entity marked \<open>isLocal\<close> when \<open>saveRemote\<close> throws.
\<close>

lemma syncEntity_conflict_default:
  assumes "isOnline (sm_status m)" "conflictStrategies m entityType = None"
    and "fetchRemote = Inr (Some remote)"
    and "updatedAt remote > orZero (syncedAt local)" "updatedAt local > orZero (syncedAt local)"
    and "subscribersAccept m \<lparr>event_type = Conflict_detected, event_timestamp = tEmit,
           event_data = ConflictData entityType (entity_id local) local remote\<rparr>"
  shows "fst (snd (syncEntity tEmit tRet entityType local fetchRemote saveRemote m))
           = [if updatedAt local > updatedAt remote then local else remote]"
    and "fst (syncEntity tEmit tRet entityType local fetchRemote saveRemote m)
           = (case saveRemote (if updatedAt local > updatedAt remote then local else remote) of
                Inr saved \<Rightarrow> saved\<lparr>syncedAt := Some tRet, isLocal := Some False\<rparr>
              | Inl err \<Rightarrow> local\<lparr>isLocal := Some True\<rparr>)"
  using assms
  by (simp_all add: syncEntity_def syncEntityTry_def resolveConflict_def emit_accept
      split: sum.splits)

text \<open>
  C3 as stated fails. On the claim's input (local \<open>updatedAt = 10\<close>, \<open>syncedAt = 5\<close>,
  remote \<open>updatedAt = 8\<close>, no strategy) \<open>saveRemote\<close> is invoked with the local note, but
  when it returns the server's copy the returned note has the server's title, not the
  local one; when it throws, the returned note is marked \<open>isLocal = true\<close>; and when a
  subscriber throws on the conflict event, \<open>saveRemote\<close> is not invoked at all.
\<close>

theorem syncEntity_returns_saved_counterexample:
  "updatedAt localNote = 10 \<and> syncedAt localNote = Some 5 \<and> updatedAt remoteNote = 8
   \<and> conflictStrategies noteManager ''note'' = None \<and> isOnline (sm_status noteManager)
   \<and> fst (snd (syncEntity 100 101 ''note'' localNote (Inr (Some remoteNote)) serverSave noteManager))
       = [localNote]
   \<and> title localNote = ''local draft''
   \<and> title (fst (syncEntity 100 101 ''note'' localNote (Inr (Some remoteNote)) serverSave noteManager))
       = ''Local Draft (1)''
   \<and> isLocal (fst (syncEntity 100 101 ''note'' localNote (Inr (Some remoteNote)) noteSaveFails noteManager))
       = Some True
   \<and> fst (snd (syncEntity 100 101 ''note'' localNote (Inr (Some remoteNote)) serverSave
        (sm_on 1 throwingSubscriber noteManager))) = []"
  by (simp add: sync_defs sm_on_def throwingSubscriber_def)

text \<open>
  C3 as the code has it (default policy, local \<open>updatedAt = 10\<close>, \<open>syncedAt = 5\<close>, remote
  \<open>updatedAt = 8\<close>): with no strategy registered and no subscriber throwing on the
  conflict event, an online \<open>syncEntity\<close> resolves in favour of the local entity and
  pushes it: \<open>saveRemote\<close> is invoked exactly once, with the local entity. When that call
  returns, the returned entity is what \<open>saveRemote\<close> returned, marked synced
  (\<open>isLocal = false\<close>, \<open>syncedAt\<close> the current time), which is the local data when
  \<open>saveRemote\<close> returns what it was given; when it throws, the returned entity is the
  local one marked \<open>isLocal = true\<close>.
\<close>

theorem syncEntity_default_local_newer:
  assumes "isOnline (sm_status m)" "conflictStrategies m entityType = None"
    and "updatedAt local = 10" "syncedAt local = Some 5"
    and "fetchRemote = Inr (Some remote)" "updatedAt remote = 8"
    and "subscribersAccept m \<lparr>event_type = Conflict_detected, event_timestamp = tEmit,
           event_data = ConflictData entityType (entity_id local) local remote\<rparr>"
  shows "fst (snd (syncEntity tEmit tRet entityType local fetchRemote saveRemote m)) = [local]
    \<and> fst (syncEntity tEmit tRet entityType local fetchRemote saveRemote m)
        = (case saveRemote local of
             Inr saved \<Rightarrow> saved\<lparr>syncedAt := Some tRet, isLocal := Some False\<rparr>
           | Inl err \<Rightarrow> local\<lparr>isLocal := Some True\<rparr>)"
proof -
  have c: "updatedAt remote > orZero (syncedAt local)" "updatedAt local > orZero (syncedAt local)"
    and w: "updatedAt local > updatedAt remote"
    using assms(3,4,6) by (simp_all add: orZero_def)
  from syncEntity_conflict_default [OF assms(1,2,5) c assms(7), of tRet saveRemote] w
  show ?thesis by simp
qed

text \<open>
  On a coordinator with a subscriber: a \<open>saveRemote\<close> that returns its argument gives
  the local entity marked synced; one that throws gives it marked \<open>isLocal\<close>.
\<close>

theorem syncEntity_default_local_newer_witness:
  "isOnline (sm_status watchedManager) \<and> conflictStrategies watchedManager ''task'' = None
   \<and> updatedAt localEntity = 10 \<and> syncedAt localEntity = Some 5
   \<and> updatedAt (remoteEntity 8) = 8
   \<and> subscribersAccept watchedManager \<lparr>event_type = Conflict_detected, event_timestamp = 100,
        event_data = ConflictData ''task'' (entity_id localEntity) localEntity (remoteEntity 8)\<rparr>
   \<and> fst (snd (syncEntity 100 101 ''task'' localEntity (Inr (Some (remoteEntity 8))) echoSave watchedManager))
       = [localEntity]
   \<and> fst (syncEntity 100 101 ''task'' localEntity (Inr (Some (remoteEntity 8))) echoSave watchedManager)
       = \<lparr>entity_id = ''e1'', updatedAt = 10, syncedAt = Some 101, isLocal = Some False\<rparr>
   \<and> fst (syncEntity 100 101 ''task'' localEntity (Inr (Some (remoteEntity 8))) failingSave watchedManager)
       = \<lparr>entity_id = ''e1'', updatedAt = 10, syncedAt = Some 5, isLocal = Some True\<rparr>"
proof -
  have h: "isOnline (sm_status watchedManager)" "conflictStrategies watchedManager ''task'' = None"
    "updatedAt localEntity = 10" "syncedAt localEntity = Some 5"
    "Inr (Some (remoteEntity 8)) = Inr (Some (remoteEntity 8))" "updatedAt (remoteEntity 8) = 8"
    "subscribersAccept watchedManager \<lparr>event_type = Conflict_detected, event_timestamp = 100,
        event_data = ConflictData ''task'' (entity_id localEntity) localEntity (remoteEntity 8)\<rparr>"
    by (simp_all add: watchedManager_def quietSubscriber_def sm_on_def subscribersAccept_def
        idleManager_def newSyncManager_def localEntity_def remoteEntity_def)
  note T = syncEntity_default_local_newer [where m = watchedManager and entityType = "''task''"
      and local = localEntity and fetchRemote = "Inr (Some (remoteEntity 8))"
      and remote = "remoteEntity 8" and tEmit = 100 and tRet = 101, OF h]
  from T [of echoSave] T [of failingSave] h
  show ?thesis by (simp add: localEntity_def echoSave_def failingSave_def)
qed

text \<open>
  C8 (network failure): while online, if \<open>fetchRemote\<close> throws, or a \<open>saveRemote\<close> call
  that \<open>syncEntity\<close> makes throws, \<open>syncEntity\<close> still returns a value, and it is the
  local entity marked \<open>isLocal = true\<close>.
\<close>

theorem syncEntity_network_failure_keeps_local:
  assumes "isOnline (sm_status m)"
    and "syncEntity tEmit tRet entityType local fetchRemote saveRemote m = (result, saves, m')"
    and "(\<exists>err. fetchRemote = Inl err) \<or> (\<exists>x \<in> set saves. \<exists>err. saveRemote x = Inl err)"
  shows "result = local\<lparr>isLocal := Some True\<rparr>"
  using assms
  by (auto simp add: syncEntity_def syncEntityTry_def pushLocal_def
      split: sum.splits option.splits if_splits prod.splits)

text \<open>A \<open>fetchRemote\<close> that throws, and a \<open>saveRemote\<close> that throws when local is pushed.\<close>

theorem syncEntity_network_failure_keeps_local_witness:
  "isOnline (sm_status idleManager)
   \<and> fst (syncEntity 100 101 ''task'' localEntity (Inl (ErrorObject ''timeout'')) echoSave idleManager)
       = localEntity\<lparr>isLocal := Some True\<rparr>
   \<and> fst (snd (syncEntity 100 101 ''task'' localEntity (Inr None) failingSave idleManager)) = [localEntity]
   \<and> failingSave localEntity = Inl (ErrorObject ''network down'')
   \<and> fst (syncEntity 100 101 ''task'' localEntity (Inr None) failingSave idleManager)
       = localEntity\<lparr>isLocal := Some True\<rparr>"
proof -
  have on: "isOnline (sm_status idleManager)" by (simp add: idleManager_def newSyncManager_def)
  obtain r1 s1 m1 where e1: "syncEntity 100 101 ''task'' localEntity (Inl (ErrorObject ''timeout'')) echoSave idleManager = (r1, s1, m1)"
    by (metis prod_cases3)
  have "r1 = localEntity\<lparr>isLocal := Some True\<rparr>"
    by (rule syncEntity_network_failure_keeps_local [OF on e1]) simp
  then have a: "fst (syncEntity 100 101 ''task'' localEntity (Inl (ErrorObject ''timeout'')) echoSave idleManager)
       = localEntity\<lparr>isLocal := Some True\<rparr>" using e1 by simp
  obtain r2 s2 m2 where e2: "syncEntity 100 101 ''task'' localEntity (Inr None) failingSave idleManager = (r2, s2, m2)"
    by (metis prod_cases3)
  have s2: "fst (snd (syncEntity 100 101 ''task'' localEntity (Inr None) failingSave idleManager)) = [localEntity]"
    by (simp add: sync_defs)
  then have "s2 = [localEntity]" using e2 by simp
  then have "(\<exists>err. (Inr None :: rejection + SyncableEntity option) = Inl err) \<or> (\<exists>x \<in> set s2. \<exists>err. failingSave x = Inl err)"
    by (simp add: failingSave_def)
  from syncEntity_network_failure_keeps_local [OF on e2 this]
  have b: "fst (syncEntity 100 101 ''task'' localEntity (Inr None) failingSave idleManager)
       = localEntity\<lparr>isLocal := Some True\<rparr>" using e2 by simp
  show ?thesis using on a b s2 by (simp add: failingSave_def)
qed

text \<open>
  C7 as stated fails: a coordinator that is online emits \<open>online\<close> again when
  \<open>setOnline(true)\<close> is called, and one that is offline emits \<open>offline\<close> again.
\<close>

theorem setOnline_repeat_counterexample:
  "isOnline (sm_status idleManager)
   \<and> map event_type (emitted (snd (setOnline 1 True idleManager))) = [Online]
   \<and> \<not> isOnline (sm_status (snd (setOnline 1 False idleManager)))
   \<and> map event_type (emitted (snd (setOnline 2 False (snd (setOnline 1 False idleManager)))))
       = [Offline, Offline]"
  by (simp add: idleManager_def newSyncManager_def newOfflineQueue_def setOnline_def emit_def
      queue_setOnline_start_def Let_def)

lemma syncTry_connectivity:
  "filter connectivityEvent (emitted (snd (syncTry now m))) = filter connectivityEvent (emitted m)"
proof (cases "statusStorageThrows m")
  case None
  then show ?thesis
    by (simp add: syncTry_def Let_def emit_emitted connectivityEvent_def)
next
  case (Some err)
  then show ?thesis by (simp add: syncTry_def Let_def)
qed

lemma sync_connectivity:
  fixes m :: "('p, 'e) SyncManager"
  shows "filter connectivityEvent (emitted (snd (sync now m))) = filter connectivityEvent (emitted m)"
proof (cases "isSyncing (sm_status m) \<or> \<not> isOnline (sm_status m)")
  case True
  then show ?thesis by (simp add: sync_def)
next
  case False
  let ?m1 = "m\<lparr>sm_status := (sm_status m)\<lparr>isSyncing := True, syncErrors := []\<rparr>\<rparr>"
  let ?started = "\<lparr>event_type = Sync_started, event_timestamp = now,
    event_data = (NoData :: 'e SyncEventData)\<rparr>"
  obtain t2 m2 where e2: "emit ?started ?m1 = (t2, m2)" by (cases "emit ?started ?m1")
  have em2: "filter connectivityEvent (emitted m2) = filter connectivityEvent (emitted m)"
    using emit_emitted [of ?started ?m1] e2 by (simp add: connectivityEvent_def)
  show ?thesis
  proof (cases t2)
    case (Some err)
    then show ?thesis using False e2 em2 by (simp add: sync_def Let_def)
  next
    case None
    obtain t5 m5 where e5: "syncTry now m2 = (t5, m5)" by (cases "syncTry now m2")
    have em5: "filter connectivityEvent (emitted m5) = filter connectivityEvent (emitted m)"
      using syncTry_connectivity [of now m2] e5 em2 by simp
    show ?thesis
    proof (cases t5)
      case None
      then show ?thesis using False e2 \<open>t2 = None\<close> e5 em5
        by (simp add: sync_def Let_def updateCounts_def)
    next
      case (Some err)
      let ?failure = "case err of ErrorObject msg \<Rightarrow> msg | OtherValue \<Rightarrow> ''Sync failed''"
      let ?failed = "\<lparr>event_type = Sync_failed, event_timestamp = now,
        event_data = (ErrorData ?failure :: 'e SyncEventData)\<rparr>"
      let ?m5 = "m5\<lparr>sm_status := (sm_status m5)\<lparr>syncErrors := syncErrors (sm_status m5) @ [?failure]\<rparr>\<rparr>"
      obtain t6 m6 where e6: "emit ?failed ?m5 = (t6, m6)" by (cases "emit ?failed ?m5")
      have em6: "filter connectivityEvent (emitted m6) = filter connectivityEvent (emitted m)"
        using emit_emitted [of ?failed ?m5] e6 em5 by (simp add: connectivityEvent_def)
      show ?thesis using False e2 \<open>t2 = None\<close> e5 Some e6 em6
        by (simp add: sync_def Let_def updateCounts_def)
    qed
  qed
qed

text \<open>
  C7 as the code has it: every call of \<open>setOnline\<close> emits exactly one connectivity event,
  \<open>online\<close> for \<open>true\<close> and \<open>offline\<close> for \<open>false\<close>, whatever value the coordinator
  held before; the \<open>sync()\<close> it may start emits none.
\<close>

theorem setOnline_always_emits:
  "filter connectivityEvent (emitted (snd (setOnline now on m))) =
     filter connectivityEvent (emitted m)
       @ [\<lparr>event_type = (if on then Online else Offline), event_timestamp = now, event_data = NoData\<rparr>]"
  for m :: "('p, 'e) SyncManager"
proof -
  let ?m1 = "m\<lparr>sm_status := (sm_status m)\<lparr>isOnline := on\<rparr>\<rparr>"
  let ?ev = "\<lparr>event_type = (if on then Online else Offline), event_timestamp = now,
    event_data = (NoData :: 'e SyncEventData)\<rparr>"
  obtain inFlight q1 where s: "queue_setOnline_start on (sm_queue ?m1) = (inFlight, q1)"
    by (cases "queue_setOnline_start on (sm_queue ?m1)")
  let ?m2 = "?m1\<lparr>sm_queue := q1\<rparr>"
  obtain t3 m3 where e: "emit ?ev ?m2 = (t3, m3)" by (cases "emit ?ev ?m2")
  have em3: "emitted m3 = emitted m @ [?ev]"
    using emit_emitted [of ?ev ?m2] e by simp
  have c: "filter connectivityEvent (emitted m3) = filter connectivityEvent (emitted m) @ [?ev]"
    by (simp add: em3 connectivityEvent_def)
  have finish: "emitted (case inFlight of None \<Rightarrow> m4
      | Some remaining \<Rightarrow> m4\<lparr>sm_queue := passFinish remaining (sm_queue m4)\<rparr>) = emitted m4" for m4
    by (cases inFlight) simp_all
  show ?thesis
  proof (cases on)
    case False
    then show ?thesis using s e c finish [of m3]
      by (simp add: setOnline_def Let_def)
  next
    case True
    show ?thesis
    proof (cases t3)
      case (Some err)
      then show ?thesis using True s e c finish [of m3]
        by (simp add: setOnline_def Let_def)
    next
      case None
      show ?thesis
      proof (cases "isOnline (sm_status m)")
        case True
        then show ?thesis using \<open>on\<close> s e None c finish [of m3]
          by (simp add: setOnline_def Let_def)
      next
        case False
        then show ?thesis
          using \<open>on\<close> s e None c finish [of "snd (sync now m3)"] sync_connectivity [of now m3]
          by (simp add: setOnline_def Let_def)
      qed
    qed
  qed
qed

text \<open>Two calls with \<open>true\<close> on an online coordinator: two \<open>online\<close> events.\<close>

theorem setOnline_always_emits_witness:
  "filter connectivityEvent (emitted (snd (setOnline 2 True (snd (setOnline 1 True idleManager))))) =
     [\<lparr>event_type = Online, event_timestamp = 1, event_data = NoData\<rparr>,
      \<lparr>event_type = Online, event_timestamp = 2, event_data = NoData\<rparr>]"
  using setOnline_always_emits [of 2 True "snd (setOnline 1 True idleManager)"]
    setOnline_always_emits [of 1 True idleManager]
  by (simp add: idleManager_def newSyncManager_def)

text \<open>
  Going online runs one pass of the queue: the pass that the queue starts is in flight
  when \<open>sync()\<close> calls \<open>processQueue()\<close>, which returns at once. With one action whose
  handler always rejects, the handler is invoked once.
\<close>

lemma setOnline_runs_one_pass:
  "invoked (sm_queue (snd (setOnline 2 True (snd (setOnline 1 False
      (newSyncManager (retryScenario 3) :: (unit, SyncableEntity) SyncManager)))))) = [0]
   \<and> map event_type (emitted (snd (setOnline 2 True (snd (setOnline 1 False
      (newSyncManager (retryScenario 3) :: (unit, SyncableEntity) SyncManager))))))
       = [Offline, Online, Sync_started, Sync_completed]"
  by (simp add: scenario_defs newSyncManager_def setOnline_def sync_def syncTry_def emit_def
      updateCounts_def queue_setOnline_start_def passStart_def passFinish_def
      getPendingCount_def getFailedCount_def)

section \<open>Properties of the Realtime Transport Client\<close>

text \<open>
  C2 (no reconnect after \<open>disconnect()\<close>): the code reconnects. \<open>disconnect()\<close> closes
  the socket and drops the reference but leaves the socket's \<open>onclose\<close> handler in
  place; when the close event of that socket is delivered, the handler runs
  \<open>attemptReconnect\<close>, which schedules \<open>connect\<close>, and the timer opens a new socket.
\<close>

theorem disconnect_then_close_event_reconnects:
  "wsStatus (disconnect (socketOpens 2 0 (connect freshClient))) = Disconnected
   \<and> wsStatus (socketCloses 4 0 (disconnect (socketOpens 2 0 (connect freshClient)))) = Reconnecting
   \<and> timers (socketCloses 4 0 (disconnect (socketOpens 2 0 (connect freshClient))))
       = [(0, ReconnectCallback, 1000)]
   \<and> wsStatus (timerFires 0 (socketCloses 4 0 (disconnect (socketOpens 2 0 (connect freshClient)))))
       = Connecting
   \<and> sockets (timerFires 0 (socketCloses 4 0 (disconnect (socketOpens 2 0 (connect freshClient)))))
       = [(''ws://localhost:3000'', CLOSED), (''ws://localhost:3000'', CONNECTING)]"
  by (simp add: client_defs)



end
